theory Spec2Isabelle
  imports Complex_Main "HOL-Library.Multiset"
begin

section \<open>Data model of the RTR planning context\<close>

text \<open>
  The development embeds \<^verbatim>\<open>rtr_moveit/src/rtr_planning_context.cpp\<close>.
  Doubles and floats are read as reals (the narrowing \<^verbatim>\<open>float(d)\<close> is a function
  of the environment), \<^verbatim>\<open>ros::Time\<close> and \<^verbatim>\<open>ros::Duration\<close> as seconds.
  A member \<^verbatim>\<open>x_\<close> of the class is the field \<open>m_x\<close> of the context record.
\<close>

datatype MoveItErrorCodes = SUCCESS | FAILURE | PLANNING_FAILED | TIMED_OUT

text \<open>
  Ways in which a call does not return a value: the sampling loop of
  \<^verbatim>\<open>getRapidPlanGoal\<close> has not ended when the fuel is spent, a null pointer is
  dereferenced, or a vector is read past its end.
\<close>

datatype fault = OutOfFuel | NullPointer | OutOfRange

type_synonym Config = "real list"
type_synonym Pose = "real list"
type_synonym Voxel = "int \<times> int \<times> int"

text \<open>
  \<^verbatim>\<open>RapidPlanGoal\<close>: the discriminant and the matched state ids. Only
  \<^verbatim>\<open>STATE_IDS\<close> occurs in the source; the second constructor stands for the kinds
  that are not used.
\<close>

datatype RapidPlanGoal_Type = STATE_IDS | RAW_TARGET

record RapidPlanGoal =
  goal_type :: RapidPlanGoal_Type
  state_ids :: "nat list"

record RoadmapVolume =
  base_frame :: string
  center :: "real \<times> real \<times> real"
  dimensions :: "real list"

record RoadmapSpecification =
  roadmap_id :: string
  volume :: RoadmapVolume

text \<open>\<^verbatim>\<open>moveit_msgs::Constraints\<close>: the three lists the source inspects.\<close>

record 'm Constraints =
  joint_constraints :: "'m list"
  position_constraints :: "'m list"
  orientation_constraints :: "'m list"

record JointState =
  name :: "string list"
  position :: "real list"

record 'm MotionPlanRequest =
  goal_constraints :: "'m Constraints list"
  start_state_joint_state :: JointState
  allowed_planning_time :: real

record JointModelGroup =
  active_joint_model_names :: "string list"

text \<open>
  The planning scene as the source reads it: its current robot state and the joint
  model group that the current state returns for the context's group name (null for
  an unknown group).
\<close>

record 'rs PlanningScene =
  current_state :: 'rs
  joint_model_group :: "JointModelGroup option"

record ('rs, 'm) RTRPlanningContext =
  m_planning_scene :: "'rs PlanningScene option"
  m_request :: "'m MotionPlanRequest"
  m_configured :: bool
  m_jmg :: "JointModelGroup option"
  m_joint_model_names :: "string list"
  m_roadmap :: RoadmapSpecification
  m_roadmap_configs :: "Config list"
  m_roadmap_poses :: "Pose list"
  m_goals :: "RapidPlanGoal list"
  m_goal_states :: "'rs option list"
  m_start_state :: "'rs option"
  m_terminate_plan_time :: real

datatype 'm sampler = JointConstraintSampler "'m Constraints" | IKConstraintSampler "'m Constraints"

text \<open>The arguments of one call of \<^verbatim>\<open>planner_interface_->solve\<close>.\<close>

record solve_args =
  arg_roadmap :: RoadmapSpecification
  arg_start_config :: Config
  arg_goal :: RapidPlanGoal
  arg_collision_voxels :: "Voxel list"
  arg_timeout :: real
  arg_solution_path :: "Config list"

text \<open>
  The collaborators outside the file. Every call that can answer differently each
  time (the clock, the constraint sampler, the planner interface) is a function of the
  number of external calls made so far, so that any sequence of answers is an
  environment.
\<close>

record ('rs, 'm, 'tr) env =
  now_at :: "nat \<Rightarrow> real"
  sample_at :: "nat \<Rightarrow> 'm sampler list \<Rightarrow> 'rs \<Rightarrow> 'rs \<Rightarrow> bool \<times> 'rs"
  copyJointGroupPositions :: "'rs \<Rightarrow> real list"
  setVariablePositions :: "string list \<Rightarrow> real list \<Rightarrow> 'rs \<Rightarrow> 'rs"
  to_float :: "real \<Rightarrow> real"
  joint_distance :: "Config \<Rightarrow> Config \<Rightarrow> real"
  isReady_at :: "nat \<Rightarrow> bool"
  initialize_at :: "nat \<Rightarrow> bool"
  getRoadmapConfigs_at :: "nat \<Rightarrow> RoadmapSpecification \<Rightarrow> Config list \<Rightarrow> bool \<times> Config list"
  getRoadmapTransforms_at :: "nat \<Rightarrow> RoadmapSpecification \<Rightarrow> Pose list \<Rightarrow> bool \<times> Pose list"
  solve_at :: "nat \<Rightarrow> solve_args \<Rightarrow> bool \<times> Config list"
  planningSceneToRtrCollisionVoxels :: "'rs PlanningScene \<Rightarrow> RoadmapVolume \<Rightarrow> Voxel list"
  pathRtrToRobotTrajectory :: "Config list \<Rightarrow> 'rs \<Rightarrow> string list \<Rightarrow> 'tr"

text \<open>
  What the context leaves in the outside world: the number of external calls, every
  call of the search engine with its answer, and the diagnostics written.
\<close>

record world =
  ticks :: nat
  engine_log :: "(solve_args \<times> bool \<times> Config list) list"
  ros_log :: "string list"

definition tick :: "world \<Rightarrow> world" where
  "tick w = w\<lparr>ticks := Suc (ticks w)\<rparr>"

definition ros_msg :: "string \<Rightarrow> world \<Rightarrow> world" where
  "ros_msg m w = w\<lparr>ros_log := ros_log w @ [m]\<rparr>"

record 'tr solve_result =
  val :: MoveItErrorCodes
  trajectory :: "'tr option"
  planning_time :: "real option"

section \<open>The constructor\<close>

definition new_context :: "RoadmapSpecification \<Rightarrow> ('rs, 'm) RTRPlanningContext \<Rightarrow> ('rs, 'm) RTRPlanningContext" where
  "new_context roadmap_spec c =
     c\<lparr>m_roadmap := roadmap_spec\<lparr>volume :=
          \<lparr>base_frame = ''base_link'', center = (0.1, 0.1, 0.1), dimensions = [1.0, 1.0, 1.0]\<rparr>\<rparr>\<rparr>"

section \<open>configure\<close>

definition configure ::
  "('rs, 'm, 'tr) env \<Rightarrow> ('rs, 'm) RTRPlanningContext \<Rightarrow> world
     \<Rightarrow> fault + (MoveItErrorCodes \<times> ('rs, 'm) RTRPlanningContext \<times> world)" where
  "configure e c w =
    (case m_planning_scene c of
       None \<Rightarrow> Inr (FAILURE, c,
         ros_msg ''Cannot configure planning context while planning scene has not been set'' w)
     | Some scene \<Rightarrow>
       (case joint_model_group scene of
          None \<Rightarrow> Inl NullPointer
        | Some g \<Rightarrow>
          let c1 = c\<lparr>m_jmg := Some g, m_joint_model_names := active_joint_model_names g\<rparr>;
              ready = isReady_at e (ticks w);
              w1 = tick w;
              initialized = (if ready then True else initialize_at e (ticks w1));
              w2 = (if ready then w1 else tick w1)
          in if \<not> initialized then Inr (FAILURE, c1, w2)
             else
               let (got_configs, configs) = getRoadmapConfigs_at e (ticks w2) (m_roadmap c1) (m_roadmap_configs c1);
                   c2 = c1\<lparr>m_roadmap_configs := configs\<rparr>;
                   w3 = tick w2
               in if \<not> got_configs \<or> configs = [] then
                    Inr (FAILURE, c2, ros_msg ''Unable to load config states from roadmap file'' w3)
                  else if length (configs ! 0) \<noteq> length (m_joint_model_names c2) then
                    Inr (FAILURE, c2,
                      ros_msg ''Roadmap state dimension does not fit to joint count of planning group'' w3)
                  else
                    let (got_poses, poses) = getRoadmapTransforms_at e (ticks w3) (m_roadmap c2) (m_roadmap_poses c2);
                        c3 = c2\<lparr>m_roadmap_poses := poses\<rparr>;
                        w4 = tick w3
                    in if \<not> got_poses \<or> poses = [] then
                         Inr (FAILURE, c3, ros_msg ''Unable to load state poses from roadmap file'' w4)
                       else Inr (SUCCESS, c3\<lparr>m_configured := True\<rparr>, w4)))"

section \<open>Goal resolution\<close>

text \<open>
  Modelled from the spec: \<^verbatim>\<open>findClosestConfigs\<close> of \<^verbatim>\<open>roadmap_util.h\<close>, which is
  not part of the sources at hand. Following section 4.4 step 2c it returns the
  nearest roadmap states under the joint-space metric, nearest first, at most
  \<open>max_results\<close> of them and none farther than \<open>max_distance\<close>, as state ids
  (positions in the configuration set) with their distances.
\<close>

definition findClosestConfigs ::
  "(Config \<Rightarrow> Config \<Rightarrow> real) \<Rightarrow> Config \<Rightarrow> Config list \<Rightarrow> nat \<Rightarrow> real \<Rightarrow> nat list \<times> real list" where
  "findClosestConfigs metric config roadmap_configs max_results max_distance =
     (let scored = map (\<lambda>i. (i, metric config (roadmap_configs ! i))) [0..<length roadmap_configs];
          admissible = filter (\<lambda>p. snd p \<le> max_distance) scored;
          nearest = take max_results (sort_key snd admissible)
      in (map fst nearest, map snd nearest))"

definition allowed_joint_distance :: real where
  "allowed_joint_distance = pi"

definition allowed_position_distance :: real where
  "allowed_position_distance = 0.1"

definition max_goal_states :: nat where
  "max_goal_states = 1"

definition init_samplers :: "'m Constraints \<Rightarrow> 'm sampler list" where
  "init_samplers goal_constraint =
     (if joint_constraints goal_constraint \<noteq> [] then [JointConstraintSampler goal_constraint] else [])
     @ (if position_constraints goal_constraint \<noteq> [] \<or> orientation_constraints goal_constraint \<noteq> []
        then [IKConstraintSampler goal_constraint] else [])"

text \<open>
  The sampling loop of \<^verbatim>\<open>getRapidPlanGoal\<close>. Each round reads the clock; while the
  deadline is ahead it draws a sample and looks for roadmap states near it. The first
  argument bounds the number of rounds; the source has no such bound.
\<close>

fun sample_loop ::
  "nat \<Rightarrow> ('rs, 'm, 'tr) env \<Rightarrow> ('rs, 'm) RTRPlanningContext \<Rightarrow> 'm sampler list \<Rightarrow> 'rs \<Rightarrow> 'rs
     \<Rightarrow> RapidPlanGoal \<Rightarrow> world \<Rightarrow> fault + (bool \<times> RapidPlanGoal \<times> 'rs option \<times> world)" where
  "sample_loop 0 e c samplers robot_state sample_state goal w = Inl OutOfFuel"
| "sample_loop (Suc fuel) e c samplers robot_state sample_state goal w =
     (if now_at e (ticks w) < m_terminate_plan_time c then
        (case sample_at e (ticks (tick w)) samplers sample_state robot_state of
           (sampled, sample_state') \<Rightarrow>
             if \<not> sampled then
               sample_loop fuel e c samplers robot_state sample_state' goal (tick (tick w))
             else
               let joint_positions = copyJointGroupPositions e sample_state';
                   sample_config = map (to_float e) joint_positions;
                   found = findClosestConfigs (joint_distance e) sample_config (m_roadmap_configs c)
                             max_goal_states allowed_joint_distance;
                   goal' = goal\<lparr>state_ids := fst found\<rparr>
               in if state_ids goal' \<noteq> [] then Inr (True, goal', Some sample_state', tick (tick w))
                  else sample_loop fuel e c samplers robot_state sample_state' goal' (tick (tick w)))
      else Inr (False, goal, None, tick w))"

definition getRapidPlanGoal ::
  "nat \<Rightarrow> ('rs, 'm, 'tr) env \<Rightarrow> ('rs, 'm) RTRPlanningContext \<Rightarrow> 'm Constraints \<Rightarrow> RapidPlanGoal \<Rightarrow> world
     \<Rightarrow> fault + (bool \<times> RapidPlanGoal \<times> 'rs option \<times> world)" where
  "getRapidPlanGoal fuel e c goal_constraint goal w =
     (case m_planning_scene c of
        None \<Rightarrow> Inl NullPointer
      | Some scene \<Rightarrow>
        (case m_jmg c of
           None \<Rightarrow> Inl NullPointer
         | Some g \<Rightarrow>
             sample_loop fuel e c (init_samplers goal_constraint) (current_state scene) (current_state scene)
               (goal\<lparr>goal_type := STATE_IDS\<rparr>) w))"

text \<open>
  The loop of \<^verbatim>\<open>initRapidPlanGoals\<close> over the goal constraints: every resolved goal is
  appended to \<open>goals\<close> and the pointer to its sampled state to \<^verbatim>\<open>goal_states_\<close>
  (a shared pointer: \<open>None\<close> is the null pointer).
\<close>

fun goals_loop ::
  "nat \<Rightarrow> ('rs, 'm, 'tr) env \<Rightarrow> ('rs, 'm) RTRPlanningContext \<Rightarrow> 'm Constraints list
     \<Rightarrow> RapidPlanGoal list \<Rightarrow> 'rs option list \<Rightarrow> world
     \<Rightarrow> fault + (RapidPlanGoal list \<times> 'rs option list \<times> world)" where
  "goals_loop fuel e c [] goals goal_states w = Inr (goals, goal_states, w)"
| "goals_loop fuel e c (goal_constraint # rest) goals goal_states w =
     (case getRapidPlanGoal fuel e c goal_constraint \<lparr>goal_type = RAW_TARGET, state_ids = []\<rparr> w of
        Inl f \<Rightarrow> Inl f
      | Inr (resolved, goal, goal_state, w') \<Rightarrow>
          if resolved then goals_loop fuel e c rest (goals @ [goal]) (goal_states @ [goal_state]) w'
          else goals_loop fuel e c rest goals goal_states w')"

definition initRapidPlanGoals ::
  "nat \<Rightarrow> ('rs, 'm, 'tr) env \<Rightarrow> ('rs, 'm) RTRPlanningContext \<Rightarrow> 'm Constraints list \<Rightarrow> RapidPlanGoal list \<Rightarrow> world
     \<Rightarrow> fault + (bool \<times> RapidPlanGoal list \<times> ('rs, 'm) RTRPlanningContext \<times> world)" where
  "initRapidPlanGoals fuel e c constraints goals w =
     (case goals_loop fuel e c constraints goals (m_goal_states c) w of
        Inl f \<Rightarrow> Inl f
      | Inr (goals', goal_states', w') \<Rightarrow>
          let c' = c\<lparr>m_goal_states := goal_states'\<rparr>
          in if constraints = [] then Inr (False, goals', c', ros_msg ''Goal constraints are empty'' w')
             else if goals' = [] then
               Inr (False, goals', c', ros_msg ''Failed to extract any goals from constraints'' w')
             else Inr (True, goals', c', w'))"

section \<open>Start state\<close>

text \<open>
  The inner loop of \<^verbatim>\<open>initStartState\<close> for one joint of the group, over the indices
  below \<^verbatim>\<open>num_joints\<close> (the number of positions of the request). Reading the name at
  an index past the end of the request's name vector is a fault.
\<close>

fun match_joint ::
  "(real \<Rightarrow> real) \<Rightarrow> string \<Rightarrow> JointState \<Rightarrow> nat list \<Rightarrow> Config \<Rightarrow> fault + Config" where
  "match_joint fl joint_name js [] start_config = Inr start_config"
| "match_joint fl joint_name js (i # is) start_config =
     (if i < length (name js) then
        (if joint_name = name js ! i
         then match_joint fl joint_name js is (start_config @ [fl (position js ! i)])
         else match_joint fl joint_name js is start_config)
      else Inl OutOfRange)"

fun match_joints ::
  "(real \<Rightarrow> real) \<Rightarrow> string list \<Rightarrow> JointState \<Rightarrow> Config \<Rightarrow> fault + Config" where
  "match_joints fl [] js start_config = Inr start_config"
| "match_joints fl (joint_name # rest) js start_config =
     (case match_joint fl joint_name js [0..<length (position js)] start_config of
        Inl f \<Rightarrow> Inl f
      | Inr start_config' \<Rightarrow> match_joints fl rest js start_config')"

definition initStartState ::
  "('rs, 'm, 'tr) env \<Rightarrow> ('rs, 'm) RTRPlanningContext \<Rightarrow> world
     \<Rightarrow> fault + (bool \<times> Config \<times> ('rs, 'm) RTRPlanningContext \<times> world)" where
  "initStartState e c w =
     (case m_planning_scene c of
        None \<Rightarrow> Inl NullPointer
      | Some scene \<Rightarrow>
          let c1 = c\<lparr>m_start_state := Some (current_state scene)\<rparr>;
              js = start_state_joint_state (m_request c1)
          in if position js \<noteq> [] then
               (case match_joints (to_float e) (m_joint_model_names c1) js [] of
                  Inl f \<Rightarrow> Inl f
                | Inr start_config \<Rightarrow>
                    if length start_config \<noteq> length (m_joint_model_names c1) then
                      Inr (False, start_config, c1,
                        ros_msg ''Invalid start state in planning request - joint message does not match to joint group'' w)
                    else
                      Inr (True, start_config,
                        c1\<lparr>m_start_state := Some (setVariablePositions e (name js) (position js) (current_state scene))\<rparr>,
                        w))
             else
               Inr (True, map (to_float e) (copyJointGroupPositions e (current_state scene)), c1,
                 ros_msg ''Start state in MotionPlanRquest is not populated - using current state from planning scene.'' w))"

section \<open>solve\<close>

text \<open>
  The loop of \<^verbatim>\<open>solve\<close> over the goals. \<open>solution_path\<close> is the vector the engine
  writes into; the result is the error code, the trajectory when one was built, and
  the world.
\<close>

fun solve_loop ::
  "('rs, 'm, 'tr) env \<Rightarrow> ('rs, 'm) RTRPlanningContext \<Rightarrow> 'rs \<Rightarrow> Config \<Rightarrow> Voxel list
     \<Rightarrow> RapidPlanGoal list \<Rightarrow> Config list \<Rightarrow> world \<Rightarrow> MoveItErrorCodes \<times> 'tr option \<times> world" where
  "solve_loop e c reference_state start_config collision_voxels [] solution_path w =
     (PLANNING_FAILED, None, w)"
| "solve_loop e c reference_state start_config collision_voxels (goal # rest) solution_path w =
     (let timeout = (m_terminate_plan_time c - now_at e (ticks w)) * 1000;
          w1 = tick w
      in if timeout \<le> 0 then (TIMED_OUT, None, w1)
         else
           let args = \<lparr>arg_roadmap = m_roadmap c, arg_start_config = start_config, arg_goal = goal,
                        arg_collision_voxels = collision_voxels, arg_timeout = timeout,
                        arg_solution_path = solution_path\<rparr>;
               answer = solve_at e (ticks w1) args;
               w2 = (tick w1)\<lparr>engine_log := engine_log w1 @ [(args, answer)]\<rparr>
           in if fst answer then
                (if snd answer = [] then
                   solve_loop e c reference_state start_config collision_voxels rest (snd answer)
                     (ros_msg ''Cannot convert empty path to robot trajectory'' w2)
                 else (SUCCESS,
                       Some (pathRtrToRobotTrajectory e (snd answer) reference_state (m_joint_model_names c)),
                       w2))
              else solve_loop e c reference_state start_config collision_voxels rest [] w2)"

definition solve ::
  "nat \<Rightarrow> ('rs, 'm, 'tr) env \<Rightarrow> ('rs, 'm) RTRPlanningContext \<Rightarrow> world
     \<Rightarrow> fault + ('tr solve_result \<times> ('rs, 'm) RTRPlanningContext \<times> world)" where
  "solve fuel e c w =
     (let start_time = now_at e (ticks w);
          w1 = tick w;
          c1 = c\<lparr>m_terminate_plan_time := start_time + allowed_planning_time (m_request c)\<rparr>;
          failure = \<lparr>val = FAILURE, trajectory = None, planning_time = None\<rparr>
      in if \<not> m_configured c1 then
           Inr (failure, c1,
             ros_msg ''solve() was called but planning context has not been configured successfully'' w1)
         else
           (case initRapidPlanGoals fuel e c1 (goal_constraints (m_request c1)) (m_goals c1) w1 of
              Inl f \<Rightarrow> Inl f
            | Inr (have_goals, goals, c1', w2) \<Rightarrow>
                let c2 = c1'\<lparr>m_goals := goals\<rparr>
                in if \<not> have_goals then Inr (failure, c2, w2)
                   else
                     (case m_planning_scene c2 of
                        None \<Rightarrow> Inl NullPointer
                      | Some scene \<Rightarrow>
                          let collision_voxels = planningSceneToRtrCollisionVoxels e scene (volume (m_roadmap c2))
                          in (case initStartState e c2 w2 of
                                Inl f \<Rightarrow> Inl f
                              | Inr (started, start_config, c3, w3) \<Rightarrow>
                                  if \<not> started then Inr (failure, c3, w3)
                                  else
                                    (case solve_loop e c3 (current_state scene) start_config collision_voxels
                                            (m_goals c3) [] w3 of
                                       (code, traj, w4) \<Rightarrow>
                                         Inr (\<lparr>val = code, trajectory = traj,
                                                planning_time = Some (now_at e (ticks w4) - start_time)\<rparr>,
                                              c3, tick w4))))))"

section \<open>clear and terminate\<close>

definition clear :: "('rs, 'm) RTRPlanningContext \<Rightarrow> ('rs, 'm) RTRPlanningContext" where
  "clear c = c"

definition terminate :: "world \<Rightarrow> bool \<times> world" where
  "terminate w = (False, ros_msg ''Failed to terminate the planning attempt! This is not supported.'' w)"

section \<open>Vocabulary of the statements\<close>

text \<open>
  An answer of the search engine is accepted when it reports success with a
  non-empty solution path.
\<close>

definition accepted :: "bool \<times> Config list \<Rightarrow> bool" where
  "accepted answer \<longleftrightarrow> fst answer \<and> snd answer \<noteq> []"

text \<open>
  The goal constraints \<open>gcs\<close> are resolved one after the other in their order:
  \<open>outs ! j\<close> is what \<^verbatim>\<open>getRapidPlanGoal\<close> returns for the constraint
  \<open>gcs ! j\<close>, called in the world \<open>ws ! j\<close> that the call before it has left.
\<close>

definition resolution_trace ::
  "nat \<Rightarrow> ('rs, 'm, 'tr) env \<Rightarrow> ('rs, 'm) RTRPlanningContext \<Rightarrow> 'm Constraints list
     \<Rightarrow> (bool \<times> RapidPlanGoal \<times> 'rs option) list \<Rightarrow> world list \<Rightarrow> bool" where
  "resolution_trace fuel e c gcs outs ws \<longleftrightarrow>
     length outs = length gcs \<and> length ws = Suc (length gcs)
     \<and> (\<forall>j < length gcs.
           getRapidPlanGoal fuel e c (gcs ! j) \<lparr>goal_type = RAW_TARGET, state_ids = []\<rparr> (ws ! j)
             = Inr (fst (outs ! j), fst (snd (outs ! j)), snd (snd (outs ! j)), ws ! Suc j))"

text \<open>
  The attempt loop over \<open>goals\<close>, started when \<open>t0\<close> external calls have been
  made: candidate \<open>j\<close> is tried after the clock, read as call \<open>t0 + 2 * j\<close>, shows
  time left, and the search engine answers as call \<open>t0 + 2 * j + 1\<close>. Only the last
  call can be accepted; the loop ends with SUCCESS at an accepted answer, with
  TIMED_OUT when the clock read for the next candidate has reached the deadline, and
  with PLANNING_FAILED after the last candidate.
\<close>

definition loop_trace ::
  "('rs, 'm, 'tr) env \<Rightarrow> real \<Rightarrow> nat \<Rightarrow> RapidPlanGoal list
     \<Rightarrow> (solve_args \<times> bool \<times> Config list) list \<Rightarrow> MoveItErrorCodes \<Rightarrow> bool" where
  "loop_trace e deadline t0 goals calls code \<longleftrightarrow>
     length calls \<le> length goals
     \<and> (\<forall>j < length calls.
           now_at e (t0 + 2 * j) < deadline
           \<and> arg_goal (fst (calls ! j)) = goals ! j
           \<and> arg_timeout (fst (calls ! j)) = (deadline - now_at e (t0 + 2 * j)) * 1000
           \<and> arg_solution_path (fst (calls ! j)) = []
           \<and> snd (calls ! j) = solve_at e (Suc (t0 + 2 * j)) (fst (calls ! j))
           \<and> (Suc j < length calls \<longrightarrow> \<not> accepted (snd (calls ! j))))
     \<and> (if calls \<noteq> [] \<and> accepted (snd (last calls)) then code = SUCCESS
         else if length calls < length goals
           then code = TIMED_OUT \<and> deadline \<le> now_at e (t0 + 2 * length calls)
         else code = PLANNING_FAILED)"

section \<open>Concrete instances\<close>

text \<open>
  A small environment on which the definitions are evaluated: two joints, a roadmap of
  two states, a clock that advances by one second with every external call, a sampler
  that returns the joint constraint's values, and a search engine that finds a path
  only to roadmap state 1.
\<close>

definition demo_env_with ::
  "(nat \<Rightarrow> solve_args \<Rightarrow> bool \<times> Config list) \<Rightarrow> (real list, real, Config list) env" where
  "demo_env_with engine =
     \<lparr>now_at = (\<lambda>k. real k),
      sample_at = (\<lambda>k samplers st ref.
         case samplers of JointConstraintSampler gc # _ \<Rightarrow> (True, joint_constraints gc) | _ \<Rightarrow> (False, st)),
      copyJointGroupPositions = (\<lambda>s. s),
      setVariablePositions = (\<lambda>names positions s. positions),
      to_float = (\<lambda>x. x),
      joint_distance = (\<lambda>a b. sum_list (map2 (\<lambda>x y. \<bar>x - y\<bar>) a b)),
      isReady_at = (\<lambda>k. True),
      initialize_at = (\<lambda>k. True),
      getRoadmapConfigs_at = (\<lambda>k spec old. (True, [[0, 0], [5, 5]])),
      getRoadmapTransforms_at = (\<lambda>k spec old. (True, [[0, 0, 0], [1, 1, 1]])),
      solve_at = engine,
      planningSceneToRtrCollisionVoxels = (\<lambda>scene vol. []),
      pathRtrToRobotTrajectory = (\<lambda>path ref names. path)\<rparr>"

definition path_to_1 :: "nat \<Rightarrow> solve_args \<Rightarrow> bool \<times> Config list" where
  "path_to_1 k args = (if state_ids (arg_goal args) = [1] then (True, [[0, 0], [5, 5]]) else (False, []))"

definition demo_env :: "(real list, real, Config list) env" where
  "demo_env = demo_env_with path_to_1"

text \<open>A search engine that reports success with an empty path for every other state.\<close>

definition empty_path_or_1 :: "nat \<Rightarrow> solve_args \<Rightarrow> bool \<times> Config list" where
  "empty_path_or_1 k args = (if state_ids (arg_goal args) = [1] then (True, [[0, 0], [5, 5]]) else (True, []))"

definition demo_scene :: "real list PlanningScene" where
  "demo_scene = \<lparr>current_state = [0, 0],
                 joint_model_group = Some \<lparr>active_joint_model_names = [''a'', ''b'']\<rparr>\<rparr>"

definition demo_request :: "real MotionPlanRequest" where
  "demo_request = \<lparr>goal_constraints = [], start_state_joint_state = \<lparr>name = [], position = []\<rparr>,
                   allowed_planning_time = 20\<rparr>"

definition demo_context :: "(real list, real) RTRPlanningContext" where
  "demo_context =
     \<lparr>m_planning_scene = Some demo_scene, m_request = demo_request, m_configured = True,
      m_jmg = Some \<lparr>active_joint_model_names = [''a'', ''b'']\<rparr>, m_joint_model_names = [''a'', ''b''],
      m_roadmap = \<lparr>roadmap_id = ''rm'', volume = \<lparr>base_frame = ''base_link'', center = (0.1, 0.1, 0.1),
                     dimensions = [1, 1, 1]\<rparr>\<rparr>,
      m_roadmap_configs = [[0, 0], [5, 5]], m_roadmap_poses = [[0, 0, 0], [1, 1, 1]],
      m_goals = [], m_goal_states = [], m_start_state = None, m_terminate_plan_time = 20\<rparr>"

definition joint_goal :: "real list \<Rightarrow> real Constraints" where
  "joint_goal q = \<lparr>joint_constraints = q, position_constraints = [], orientation_constraints = []\<rparr>"

definition world0 :: world where
  "world0 = \<lparr>ticks = 0, engine_log = [], ros_log = []\<rparr>"

definition fresh_goal :: RapidPlanGoal where
  "fresh_goal = \<lparr>goal_type = RAW_TARGET, state_ids = []\<rparr>"

definition state_goal :: "nat \<Rightarrow> RapidPlanGoal" where
  "state_goal i = \<lparr>goal_type = STATE_IDS, state_ids = [i]\<rparr>"

definition with_goals ::
  "real list list \<Rightarrow> (real list, real) RTRPlanningContext \<Rightarrow> (real list, real) RTRPlanningContext" where
  "with_goals qs c = c\<lparr>m_request := (m_request c)\<lparr>goal_constraints := map joint_goal qs\<rparr>\<rparr>"

definition unconfigured_context :: "(real list, real) RTRPlanningContext" where
  "unconfigured_context =
     \<lparr>m_planning_scene = Some demo_scene, m_request = demo_request, m_configured = False,
      m_jmg = None, m_joint_model_names = [],
      m_roadmap = \<lparr>roadmap_id = ''rm'', volume = \<lparr>base_frame = ''base_link'', center = (0.1, 0.1, 0.1),
                     dimensions = [1, 1, 1]\<rparr>\<rparr>,
      m_roadmap_configs = [], m_roadmap_poses = [],
      m_goals = [], m_goal_states = [], m_start_state = None, m_terminate_plan_time = 0\<rparr>"

text \<open>A planner interface whose roadmap holds vectors of different lengths.\<close>

definition ragged_env :: "(real list, real, Config list) env" where
  "ragged_env = demo_env\<lparr>getRoadmapConfigs_at := (\<lambda>k spec old. (True, [[0, 0], [5]]))\<rparr>"

text \<open>A planner interface whose roadmap file has changed after the second external call.\<close>

definition changing_env :: "(real list, real, Config list) env" where
  "changing_env = demo_env\<lparr>getRoadmapConfigs_at :=
     (\<lambda>k spec old. if k \<le> 1 then (True, [[0, 0], [5, 5]]) else (True, [[1, 1]]))\<rparr>"

definition configured_once :: "(real list, real) RTRPlanningContext \<times> world" where
  "configured_once = snd (projr (configure changing_env unconfigured_context world0))"

definition configured_twice :: "(real list, real) RTRPlanningContext \<times> world" where
  "configured_twice = snd (projr (configure changing_env (fst configured_once) (snd configured_once)))"

text \<open>A request whose allowed planning time is zero.\<close>

definition no_time :: "(real list, real) RTRPlanningContext \<Rightarrow> (real list, real) RTRPlanningContext" where
  "no_time c = c\<lparr>m_request := (m_request c)\<lparr>allowed_planning_time := 0\<rparr>\<rparr>"

text \<open>
  Two solve calls on one context: the first with a goal that resolves to roadmap
  state 1, then one with a goal that resolves to state 0, and one with a goal that no
  roadmap state is near, under an allowed planning time of two seconds.
\<close>

definition first_call ::
  "Config list solve_result \<times> (real list, real) RTRPlanningContext \<times> world" where
  "first_call = projr (solve (Suc (Suc 0)) demo_env (with_goals [[5, 4]] demo_context) world0)"

definition second_call ::
  "fault + Config list solve_result \<times> (real list, real) RTRPlanningContext \<times> world" where
  "second_call = solve (Suc (Suc 0)) demo_env (with_goals [[0, 0]] (fst (snd first_call))) (snd (snd first_call))"

definition short_time :: "(real list, real) RTRPlanningContext \<Rightarrow> (real list, real) RTRPlanningContext" where
  "short_time c = c\<lparr>m_request := (m_request c)\<lparr>allowed_planning_time := 2\<rparr>\<rparr>"

definition second_call_unresolved ::
  "fault + Config list solve_result \<times> (real list, real) RTRPlanningContext \<times> world" where
  "second_call_unresolved =
     solve (Suc (Suc 0)) demo_env (short_time (with_goals [[9, 9]] (fst (snd first_call)))) (snd (snd first_call))"

definition fresh_call_unresolved ::
  "fault + Config list solve_result \<times> (real list, real) RTRPlanningContext \<times> world" where
  "fresh_call_unresolved = solve (Suc (Suc 0)) demo_env (short_time (with_goals [[9, 9]] demo_context)) world0"

definition with_start ::
  "string list \<Rightarrow> real list \<Rightarrow> ('rs, 'm) RTRPlanningContext \<Rightarrow> ('rs, 'm) RTRPlanningContext" where
  "with_start names positions c =
     c\<lparr>m_request := (m_request c)\<lparr>start_state_joint_state := \<lparr>name = names, position = positions\<rparr>\<rparr>\<rparr>"

text \<open>A planning group of three joints.\<close>

definition three_joints :: "(real list, real) RTRPlanningContext \<Rightarrow> (real list, real) RTRPlanningContext" where
  "three_joints c = c\<lparr>m_jmg := Some \<lparr>active_joint_model_names = [''a'', ''b'', ''c'']\<rparr>,
                      m_joint_model_names := [''a'', ''b'', ''c'']\<rparr>"

text \<open>A request that names joint a twice and joint b not at all.\<close>

definition duplicate_call ::
  "fault + Config list solve_result \<times> (real list, real) RTRPlanningContext \<times> world" where
  "duplicate_call =
     solve (Suc (Suc 0)) demo_env (with_start [''a'', ''a''] [1, 2] (with_goals [[5, 4]] demo_context)) world0"

section \<open>Basic facts about the world\<close>

lemma ticks_tick [simp]: "ticks (tick w) = Suc (ticks w)"
  and engine_log_tick [simp]: "engine_log (tick w) = engine_log w"
  and ros_log_tick [simp]: "ros_log (tick w) = ros_log w"
  by (simp_all add: tick_def)

lemma ticks_ros_msg [simp]: "ticks (ros_msg m w) = ticks w"
  and engine_log_ros_msg [simp]: "engine_log (ros_msg m w) = engine_log w"
  and ros_log_ros_msg [simp]: "ros_log (ros_msg m w) = ros_log w @ [m]"
  by (simp_all add: ros_msg_def)

section \<open>Goal resolution\<close>

lemma findClosestConfigs_ids:
  assumes "i \<in> set (fst (findClosestConfigs metric q cfgs k T))"
  shows "i < length cfgs \<and> metric q (cfgs ! i) \<le> T"
proof -
  let ?scored = "map (\<lambda>i. (i, metric q (cfgs ! i))) [0..<length cfgs]"
  let ?adm = "filter (\<lambda>p. snd p \<le> T) ?scored"
  from assms obtain p where p: "p \<in> set (take k (sort_key snd ?adm))" and i: "i = fst p"
    by (auto simp: findClosestConfigs_def Let_def)
  from p have "p \<in> set (sort_key snd ?adm)"
    by (rule in_set_takeD)
  then have "p \<in> set ?adm"
    by simp
  with i show ?thesis
    by auto
qed

lemma findClosestConfigs_length:
  "length (fst (findClosestConfigs metric q cfgs k T)) \<le> k"
  by (simp add: findClosestConfigs_def Let_def)

lemma sample_loop_resolved:
  assumes "sample_loop fuel e c samplers rs st goal w = Inr (True, g, gs, w')"
  shows "\<exists>s k prev. gs = Some s \<and> sample_at e k samplers prev rs = (True, s)
           \<and> state_ids g \<noteq> []
           \<and> g = goal\<lparr>state_ids := fst (findClosestConfigs (joint_distance e)
                 (map (to_float e) (copyJointGroupPositions e s)) (m_roadmap_configs c)
                 max_goal_states allowed_joint_distance)\<rparr>"
  using assms
proof (induction fuel e c samplers rs st goal w rule: sample_loop.induct)
  case (1 e c samplers robot_state sample_state goal w)
  then show ?case by simp
next
  case (2 fuel e c samplers robot_state sample_state goal w)
  show ?case
  proof (cases "now_at e (ticks w) < m_terminate_plan_time c")
    case False
    with "2.prems" show ?thesis by simp
  next
    case True
    obtain sampled s' where sm: "sample_at e (ticks (tick w)) samplers sample_state robot_state = (sampled, s')"
      by (cases "sample_at e (ticks (tick w)) samplers sample_state robot_state")
    show ?thesis
    proof (cases sampled)
      case False
      with True sm "2.prems" "2.IH"(1)[OF True sm[symmetric]] show ?thesis
        by simp
    next
      case sampled: True
      let ?found = "findClosestConfigs (joint_distance e) (map (to_float e) (copyJointGroupPositions e s'))
                      (m_roadmap_configs c) max_goal_states allowed_joint_distance"
      show ?thesis
      proof (cases "fst ?found = []")
        case False
        with True sm sampled "2.prems" have "g = goal\<lparr>state_ids := fst ?found\<rparr>" "gs = Some s'"
          by (simp_all add: Let_def)
        with False sm sampled show ?thesis
          by auto
      next
        case empty: True
        with True sm sampled "2.prems"
        have "sample_loop fuel e c samplers robot_state s' (goal\<lparr>state_ids := fst ?found\<rparr>) (tick (tick w))
               = Inr (True, g, gs, w')"
          by (simp add: Let_def)
        from "2.IH"(2)[OF True sm[symmetric] _ refl refl refl refl _ this] empty sampled
        show ?thesis by (auto simp: Let_def)
      qed
    qed
  qed
qed

text \<open>
  C3. A goal candidate emitted by \<^verbatim>\<open>getRapidPlanGoal\<close> carries the type
  \<^verbatim>\<open>STATE_IDS\<close> and exactly one state id (never more than the maximum of one);
  the roadmap configuration with that id is no farther than \<open>pi\<close>, under the
  joint-space metric, from the configuration of a state that the sampler built for
  this constraint returned, and that state is the goal state handed back.
\<close>

theorem goal_candidate_admissible:
  assumes "getRapidPlanGoal fuel e c goal_constraint goal w = Inr (True, g, gs, w')"
  shows "\<exists>s k prev scene. gs = Some s \<and> m_planning_scene c = Some scene
           \<and> sample_at e k (init_samplers goal_constraint) prev (current_state scene) = (True, s)
           \<and> goal_type g = STATE_IDS
           \<and> state_ids g \<noteq> [] \<and> length (state_ids g) \<le> 1
           \<and> (\<forall>i \<in> set (state_ids g). i < length (m_roadmap_configs c)
                \<and> joint_distance e (map (to_float e) (copyJointGroupPositions e s)) (m_roadmap_configs c ! i) \<le> pi)"
proof -
  from assms obtain scene grp where sc: "m_planning_scene c = Some scene"
    and run: "sample_loop fuel e c (init_samplers goal_constraint) (current_state scene) (current_state scene)
               (goal\<lparr>goal_type := STATE_IDS\<rparr>) w = Inr (True, g, gs, w')"
    by (auto simp: getRapidPlanGoal_def split: option.splits)
  from sample_loop_resolved[OF run] obtain s k prev where
    gs: "gs = Some s" and smp: "sample_at e k (init_samplers goal_constraint) prev (current_state scene) = (True, s)"
    and ne: "state_ids g \<noteq> []"
    and g: "g = goal\<lparr>goal_type := STATE_IDS, state_ids := fst (findClosestConfigs (joint_distance e)
                 (map (to_float e) (copyJointGroupPositions e s)) (m_roadmap_configs c)
                 max_goal_states allowed_joint_distance)\<rparr>"
    by auto
  from g have ids: "state_ids g = fst (findClosestConfigs (joint_distance e)
                 (map (to_float e) (copyJointGroupPositions e s)) (m_roadmap_configs c) 1 pi)"
    by (simp add: max_goal_states_def allowed_joint_distance_def)
  have len: "length (state_ids g) \<le> 1"
    unfolding ids by (rule findClosestConfigs_length)
  have near: "\<forall>i \<in> set (state_ids g). i < length (m_roadmap_configs c)
                \<and> joint_distance e (map (to_float e) (copyJointGroupPositions e s)) (m_roadmap_configs c ! i) \<le> pi"
    unfolding ids by (blast dest: findClosestConfigs_ids)
  from g have "goal_type g = STATE_IDS" by simp
  with gs sc smp ne len near show ?thesis by blast
qed

theorem goal_candidate_admissible_witness:
  "getRapidPlanGoal 3 demo_env demo_context (joint_goal [5, 4]) fresh_goal world0
     = Inr (True, \<lparr>goal_type = STATE_IDS, state_ids = [1]\<rparr>, Some [5, 4],
            \<lparr>ticks = 2, engine_log = [], ros_log = []\<rparr>)
   \<and> 1 < length (m_roadmap_configs demo_context)
   \<and> joint_distance demo_env (map (to_float demo_env) (copyJointGroupPositions demo_env [5, 4]))
         (m_roadmap_configs demo_context ! 1) \<le> pi"
proof -
  have run: "getRapidPlanGoal 3 demo_env demo_context (joint_goal [5, 4]) fresh_goal world0
     = Inr (True, \<lparr>goal_type = STATE_IDS, state_ids = [1]\<rparr>, Some [5, 4],
            \<lparr>ticks = 2, engine_log = [], ros_log = []\<rparr>)"
    using pi_ge_two pi_less_4
    by (simp add: getRapidPlanGoal_def demo_env_def demo_env_with_def demo_context_def demo_scene_def joint_goal_def
          world0_def fresh_goal_def init_samplers_def numeral_3_eq_3 tick_def findClosestConfigs_def
          max_goal_states_def allowed_joint_distance_def upt_rec)
  from goal_candidate_admissible[OF run] run show ?thesis
    by auto
qed

section \<open>The world is only read by goal and start resolution\<close>

lemma sample_loop_world:
  assumes "sample_loop fuel e c samplers rs st goal w = Inr (ok, g, gs, w')"
  shows "engine_log w' = engine_log w \<and> ros_log w' = ros_log w \<and> ticks w \<le> ticks w'"
  using assms
proof (induction fuel e c samplers rs st goal w rule: sample_loop.induct)
  case (1 e c samplers robot_state sample_state goal w)
  then show ?case by simp
next
  case (2 fuel e c samplers robot_state sample_state goal w)
  show ?case
  proof (cases "now_at e (ticks w) < m_terminate_plan_time c")
    case False
    with "2.prems" show ?thesis by auto
  next
    case True
    obtain sampled s' where sm: "sample_at e (ticks (tick w)) samplers sample_state robot_state = (sampled, s')"
      by (cases "sample_at e (ticks (tick w)) samplers sample_state robot_state")
    note ih1 = "2.IH"(1)[OF True sm[symmetric]]
    note ih2 = "2.IH"(2)[OF True sm[symmetric] _ refl refl refl refl]
    from True sm "2.prems" ih1 ih2 show ?thesis
      by (auto simp: Let_def split: if_splits)
  qed
qed

lemma getRapidPlanGoal_world:
  assumes "getRapidPlanGoal fuel e c gc goal w = Inr (ok, g, gs, w')"
  shows "engine_log w' = engine_log w \<and> ros_log w' = ros_log w \<and> ticks w \<le> ticks w'"
  using assms sample_loop_world
  by (fastforce simp: getRapidPlanGoal_def split: option.splits)

lemma goals_loop_world:
  assumes "goals_loop fuel e c gcs goals gstates w = Inr (goals', gstates', w')"
  shows "engine_log w' = engine_log w \<and> ros_log w' = ros_log w \<and> ticks w \<le> ticks w'"
  using assms
proof (induction gcs arbitrary: goals gstates w)
  case Nil
  then show ?case by simp
next
  case (Cons gc gcs)
  from Cons.prems obtain ok g gs w1 where
    one: "getRapidPlanGoal fuel e c gc \<lparr>goal_type = RAW_TARGET, state_ids = []\<rparr> w = Inr (ok, g, gs, w1)"
    by (auto split: sum.splits)
  from Cons.prems one obtain goals1 gstates1 where
    "goals_loop fuel e c gcs goals1 gstates1 w1 = Inr (goals', gstates', w')"
    by (auto split: if_splits)
  from Cons.IH[OF this] getRapidPlanGoal_world[OF one] show ?case
    by auto
qed

lemma initRapidPlanGoals_result:
  assumes "initRapidPlanGoals fuel e c gcs goals w = Inr (ok, goals', c', w')"
  shows "engine_log w' = engine_log w \<and> c' = c\<lparr>m_goal_states := m_goal_states c'\<rparr>
           \<and> (ok \<longleftrightarrow> gcs \<noteq> [] \<and> goals' \<noteq> [])"
proof -
  from assms obtain gs1 w1 where
    loop: "goals_loop fuel e c gcs goals (m_goal_states c) w = Inr (goals', gs1, w1)"
    and c': "c' = c\<lparr>m_goal_states := gs1\<rparr>"
    and w': "engine_log w' = engine_log w1"
    and ok: "ok \<longleftrightarrow> gcs \<noteq> [] \<and> goals' \<noteq> []"
    by (auto simp: initRapidPlanGoals_def Let_def split: sum.splits if_splits)
  from goals_loop_world[OF loop] c' w' ok show ?thesis
    by simp
qed

lemma initStartState_result:
  assumes "initStartState e c w = Inr (ok, start, c', w')"
  shows "engine_log w' = engine_log w \<and> ticks w' = ticks w \<and> c' = c\<lparr>m_start_state := m_start_state c'\<rparr>"
  using assms
  by (auto simp: initStartState_def Let_def split: option.splits sum.splits if_splits)


section \<open>Enough fuel: the calls return\<close>

lemma sample_loop_returns:
  assumes "\<forall>k\<ge>K. m_terminate_plan_time c \<le> now_at e k" and "K - ticks w < fuel"
  shows "\<exists>r. sample_loop fuel e c samplers rs st goal w = Inr r"
  using assms(2)
proof (induction fuel arbitrary: st goal w)
  case 0
  then show ?case by simp
next
  case (Suc fuel)
  show ?case
  proof (cases "now_at e (ticks w) < m_terminate_plan_time c")
    case False
    then show ?thesis by auto
  next
    case True
    with assms(1) have "ticks w < K"
      by (meson not_le_imp_less not_less)
    with Suc.prems have "K - ticks (tick (tick w)) < fuel"
      by simp
    from Suc.IH[OF this] True show ?thesis
      by (auto simp: Let_def split: prod.splits)
  qed
qed

lemma getRapidPlanGoal_returns:
  assumes "m_planning_scene c \<noteq> None" and "m_jmg c \<noteq> None"
    and "\<forall>k\<ge>K. m_terminate_plan_time c \<le> now_at e k" and "K < fuel"
  shows "\<exists>r. getRapidPlanGoal fuel e c gc goal w = Inr r"
proof -
  from assms(4) have "K - ticks w < fuel" by simp
  from sample_loop_returns[OF assms(3) this] assms(1,2) show ?thesis
    by (auto simp: getRapidPlanGoal_def)
qed

lemma goals_loop_returns:
  assumes "m_planning_scene c \<noteq> None" and "m_jmg c \<noteq> None"
    and "\<forall>k\<ge>K. m_terminate_plan_time c \<le> now_at e k" and "K < fuel"
  shows "\<exists>r. goals_loop fuel e c gcs goals gstates w = Inr r"
proof (induction gcs arbitrary: goals gstates w)
  case Nil
  then show ?case by simp
next
  case (Cons gc gcs)
  from getRapidPlanGoal_returns[OF assms] obtain ok g gs w1 where
    "getRapidPlanGoal fuel e c gc \<lparr>goal_type = RAW_TARGET, state_ids = []\<rparr> w = Inr (ok, g, gs, w1)"
    by (metis prod_cases4)
  with Cons.IH show ?case
    by (auto split: if_splits)
qed

lemma initRapidPlanGoals_returns:
  assumes "m_planning_scene c \<noteq> None" and "m_jmg c \<noteq> None"
    and "\<forall>k\<ge>K. m_terminate_plan_time c \<le> now_at e k" and "K < fuel"
  shows "\<exists>r. initRapidPlanGoals fuel e c gcs goals w = Inr r"
proof -
  from goals_loop_returns[OF assms] obtain r where
    "goals_loop fuel e c gcs goals (m_goal_states c) w = Inr r"
    by blast
  then show ?thesis
    by (cases r) (auto simp: initRapidPlanGoals_def Let_def)
qed

lemma match_joint_returns:
  assumes "\<forall>i \<in> set is. i < length (name js)"
  shows "\<exists>r. match_joint fl jn js is acc = Inr r"
  using assms by (induction "is" arbitrary: acc) auto

lemma match_joints_returns:
  assumes "length (position js) \<le> length (name js)"
  shows "\<exists>r. match_joints fl jns js acc = Inr r"
proof (induction jns arbitrary: acc)
  case Nil
  then show ?case by simp
next
  case (Cons jn jns)
  from assms have "\<forall>i \<in> set [0..<length (position js)]. i < length (name js)"
    by simp
  from match_joint_returns[OF this] obtain r where
    "match_joint fl jn js [0..<length (position js)] acc = Inr r"
    by blast
  with Cons.IH show ?case by simp
qed

lemma initStartState_returns:
  assumes "m_planning_scene c \<noteq> None"
    and "length (position (start_state_joint_state (m_request c)))
           \<le> length (name (start_state_joint_state (m_request c)))"
  shows "\<exists>r. initStartState e c w = Inr r"
proof -
  from match_joints_returns[OF assms(2)] obtain r where
    "match_joints (to_float e) (m_joint_model_names c) (start_state_joint_state (m_request c)) [] = Inr r"
    by blast
  with assms(1) show ?thesis
    by (auto simp: initStartState_def Let_def)
qed

lemma solve_returns:
  assumes "m_planning_scene c \<noteq> None" and "m_jmg c \<noteq> None"
    and "length (position (start_state_joint_state (m_request c)))
           \<le> length (name (start_state_joint_state (m_request c)))"
    and "\<forall>k\<ge>K. now_at e (ticks w) + allowed_planning_time (m_request c) \<le> now_at e k" and "K < fuel"
  shows "\<exists>r c' w'. solve fuel e c w = Inr (r, c', w')"
proof -
  let ?c1 = "c\<lparr>m_terminate_plan_time := now_at e (ticks w) + allowed_planning_time (m_request c)\<rparr>"
  have "\<exists>r. initRapidPlanGoals fuel e ?c1 (goal_constraints (m_request ?c1)) (m_goals ?c1) (tick w) = Inr r"
    using assms by (intro initRapidPlanGoals_returns[where K = K]) simp_all
  then obtain ok goals c1' w2 where
    init: "initRapidPlanGoals fuel e ?c1 (goal_constraints (m_request ?c1)) (m_goals ?c1) (tick w)
             = Inr (ok, goals, c1', w2)"
    by (metis prod_cases4)
  from initRapidPlanGoals_result[OF init] have c1': "c1' = ?c1\<lparr>m_goal_states := m_goal_states c1'\<rparr>"
    by simp
  let ?c2 = "c1'\<lparr>m_goals := goals\<rparr>"
  from c1' assms(1) have sc: "m_planning_scene ?c2 \<noteq> None"
    by (metis RTRPlanningContext.select_convs(1) RTRPlanningContext.surjective RTRPlanningContext.update_convs)
  from c1' assms(3) have "length (position (start_state_joint_state (m_request ?c2)))
           \<le> length (name (start_state_joint_state (m_request ?c2)))"
    by (metis RTRPlanningContext.select_convs(2) RTRPlanningContext.surjective RTRPlanningContext.update_convs)
  from initStartState_returns[OF sc this] obtain started start c3 w3 where
    "initStartState e ?c2 w2 = Inr (started, start, c3, w3)"
    by (metis prod_cases4)
  with init sc show ?thesis
    by (auto simp: solve_def Let_def split: prod.splits)
qed

section \<open>The attempt loop\<close>



section \<open>Evaluation, step by step\<close>

lemma sample_loop_hit:
  assumes "now_at e (ticks w) < m_terminate_plan_time c"
    and "sample_at e (Suc (ticks w)) samplers st rs = (True, s)"
    and "fst (findClosestConfigs (joint_distance e) (map (to_float e) (copyJointGroupPositions e s))
               (m_roadmap_configs c) max_goal_states allowed_joint_distance) = ids"
    and "ids \<noteq> []"
  shows "sample_loop (Suc n) e c samplers rs st goal w
           = Inr (True, goal\<lparr>state_ids := ids\<rparr>, Some s, tick (tick w))"
  using assms by (simp add: Let_def)

lemma sample_loop_miss:
  assumes "now_at e (ticks w) < m_terminate_plan_time c"
    and "sample_at e (Suc (ticks w)) samplers st rs = (True, s)"
    and "fst (findClosestConfigs (joint_distance e) (map (to_float e) (copyJointGroupPositions e s))
               (m_roadmap_configs c) max_goal_states allowed_joint_distance) = []"
  shows "sample_loop (Suc n) e c samplers rs st goal w
           = sample_loop n e c samplers rs s (goal\<lparr>state_ids := []\<rparr>) (tick (tick w))"
  using assms by (simp add: Let_def)

lemma sample_loop_deadline:
  assumes "\<not> now_at e (ticks w) < m_terminate_plan_time c"
  shows "sample_loop (Suc n) e c samplers rs st goal w = Inr (False, goal, None, tick w)"
  using assms by simp

lemma solve_unconfigured:
  assumes "\<not> m_configured c"
  shows "solve fuel e c w
           = Inr (\<lparr>val = FAILURE, trajectory = None, planning_time = None\<rparr>,
                  c\<lparr>m_terminate_plan_time := now_at e (ticks w) + allowed_planning_time (m_request c)\<rparr>,
                  ros_msg ''solve() was called but planning context has not been configured successfully'' (tick w))"
  using assms by (simp add: solve_def Let_def)

lemma solve_run:
  assumes "m_configured c"
    and "initRapidPlanGoals fuel e (c\<lparr>m_terminate_plan_time := now_at e (ticks w) + allowed_planning_time (m_request c)\<rparr>)
           (goal_constraints (m_request c)) (m_goals c) (tick w) = Inr (True, goals, c1, w2)"
    and "m_planning_scene c1 = Some scene"
    and "initStartState e (c1\<lparr>m_goals := goals\<rparr>) w2 = Inr (True, start, c3, w3)"
    and "solve_loop e c3 (current_state scene) start
           (planningSceneToRtrCollisionVoxels e scene (volume (m_roadmap c1))) (m_goals c3) [] w3 = (code, traj, w4)"
  shows "solve fuel e c w
           = Inr (\<lparr>val = code, trajectory = traj,
                   planning_time = Some (now_at e (ticks w4) - now_at e (ticks w))\<rparr>, c3, tick w4)"
  using assms by (simp add: solve_def Let_def)

lemma solve_no_goals:
  assumes "m_configured c"
    and "initRapidPlanGoals fuel e (c\<lparr>m_terminate_plan_time := now_at e (ticks w) + allowed_planning_time (m_request c)\<rparr>)
           (goal_constraints (m_request c)) (m_goals c) (tick w) = Inr (False, goals, c1, w2)"
  shows "solve fuel e c w
           = Inr (\<lparr>val = FAILURE, trajectory = None, planning_time = None\<rparr>, c1\<lparr>m_goals := goals\<rparr>, w2)"
  using assms by (simp add: solve_def Let_def)

lemma solve_no_start:
  assumes "m_configured c"
    and "initRapidPlanGoals fuel e (c\<lparr>m_terminate_plan_time := now_at e (ticks w) + allowed_planning_time (m_request c)\<rparr>)
           (goal_constraints (m_request c)) (m_goals c) (tick w) = Inr (True, goals, c1, w2)"
    and "m_planning_scene c1 = Some scene"
    and "initStartState e (c1\<lparr>m_goals := goals\<rparr>) w2 = Inr (False, start, c3, w3)"
  shows "solve fuel e c w
           = Inr (\<lparr>val = FAILURE, trajectory = None, planning_time = None\<rparr>, c3, w3)"
  using assms by (simp add: solve_def Let_def)

lemma initRapidPlanGoals_run:
  assumes "goals_loop fuel e c gcs goals (m_goal_states c) w = Inr (goals', gstates', w')"
  shows "initRapidPlanGoals fuel e c gcs goals w =
     (if gcs = [] then Inr (False, goals', c\<lparr>m_goal_states := gstates'\<rparr>, ros_msg ''Goal constraints are empty'' w')
      else if goals' = [] then
        Inr (False, goals', c\<lparr>m_goal_states := gstates'\<rparr>, ros_msg ''Failed to extract any goals from constraints'' w')
      else Inr (True, goals', c\<lparr>m_goal_states := gstates'\<rparr>, w'))"
  using assms by (simp add: initRapidPlanGoals_def Let_def)

section \<open>The concrete environment\<close>

lemma demo_closest:
  "fst (findClosestConfigs (joint_distance (demo_env_with f)) [0, 0] [[0, 0], [5, 5]] 1 pi) = [0]"
  "fst (findClosestConfigs (joint_distance (demo_env_with f)) [5, 4] [[0, 0], [5, 5]] 1 pi) = [1]"
  "fst (findClosestConfigs (joint_distance (demo_env_with f)) [0, 1] [[0, 0], [5, 5]] 1 pi) = [0]"
  "fst (findClosestConfigs (joint_distance (demo_env_with f)) [9, 9] [[0, 0], [5, 5]] 1 pi) = []"
  "fst (findClosestConfigs (joint_distance (demo_env_with f)) [5, 5] [[0, 0], [5, 5]] 1 pi) = [1]"
  using pi_ge_two pi_less_4
  by (simp_all add: findClosestConfigs_def demo_env_with_def)

lemma demo_getRapidPlanGoal:
  assumes "m_planning_scene c = Some scene" and "m_jmg c = Some g"
    and "m_roadmap_configs c = [[0, 0], [5, 5]]"
    and "real (ticks w) < m_terminate_plan_time c"
    and "fst (findClosestConfigs (joint_distance (demo_env_with f)) q [[0, 0], [5, 5]] 1 pi) = [i]"
    and "q \<noteq> []"
  shows "getRapidPlanGoal (Suc n) (demo_env_with f) c (joint_goal q) goal w
           = Inr (True, state_goal i, Some q, tick (tick w))"
proof -
  have smp: "init_samplers (joint_goal q) = [JointConstraintSampler (joint_goal q)]"
    using assms(6) by (simp add: init_samplers_def joint_goal_def)
  have "sample_loop (Suc n) (demo_env_with f) c [JointConstraintSampler (joint_goal q)] (current_state scene)
          (current_state scene) (goal\<lparr>goal_type := STATE_IDS\<rparr>) w
        = Inr (True, goal\<lparr>goal_type := STATE_IDS, state_ids := [i]\<rparr>, Some q, tick (tick w))"
    using assms(3,4,5)
    by (intro sample_loop_hit)
       (simp_all add: demo_env_with_def joint_goal_def max_goal_states_def allowed_joint_distance_def)
  with assms(1,2) smp show ?thesis
    by (simp add: getRapidPlanGoal_def state_goal_def)
qed

lemma demo_goals_loop:
  assumes c: "m_planning_scene c = Some scene" "m_jmg c = Some g" "m_roadmap_configs c = [[0, 0], [5, 5]]"
    and res: "list_all2 (\<lambda>q i. q \<noteq> []
                \<and> fst (findClosestConfigs (joint_distance (demo_env_with f)) q [[0, 0], [5, 5]] 1 pi) = [i]) qs ids"
    and t: "real (ticks w) + 2 * real (length qs) < m_terminate_plan_time c + 2"
  shows "goals_loop (Suc n) (demo_env_with f) c (map joint_goal qs) goals gstates w
           = Inr (goals @ map state_goal ids, gstates @ map Some qs, w\<lparr>ticks := ticks w + 2 * length qs\<rparr>)"
  using res t
proof (induction qs ids arbitrary: goals gstates w rule: list_all2_induct)
  case Nil
  then show ?case by simp
next
  case (Cons q qs i ids)
  have one: "getRapidPlanGoal (Suc n) (demo_env_with f) c (joint_goal q) \<lparr>goal_type = RAW_TARGET, state_ids = []\<rparr> w
               = Inr (True, state_goal i, Some q, tick (tick w))"
    using c Cons.hyps(1) Cons.prems by (intro demo_getRapidPlanGoal) simp_all
  have "real (ticks (tick (tick w))) + 2 * real (length qs) < m_terminate_plan_time c + 2"
    using Cons.prems by simp
  from Cons.IH[OF this] one show ?case
    by (simp add: tick_def)
qed

lemma demo_initRapidPlanGoals:
  assumes c: "m_planning_scene c = Some scene" "m_jmg c = Some g" "m_roadmap_configs c = [[0, 0], [5, 5]]"
    and res: "list_all2 (\<lambda>q i. q \<noteq> []
                \<and> fst (findClosestConfigs (joint_distance (demo_env_with f)) q [[0, 0], [5, 5]] 1 pi) = [i]) qs ids"
    and ne: "qs \<noteq> []"
    and t: "real (ticks w) + 2 * real (length qs) < m_terminate_plan_time c + 2"
  shows "initRapidPlanGoals (Suc n) (demo_env_with f) c (map joint_goal qs) goals w
           = Inr (True, goals @ map state_goal ids, c\<lparr>m_goal_states := m_goal_states c @ map Some qs\<rparr>,
                  w\<lparr>ticks := ticks w + 2 * length qs\<rparr>)"
proof -
  from res ne have "ids \<noteq> []"
    by (auto simp: list_all2_Cons1 neq_Nil_conv)
  with initRapidPlanGoals_run[OF demo_goals_loop[OF c res t]] ne show ?thesis
    by simp
qed

lemma demo_solve_from_scene:
  assumes c: "m_configured c" "m_planning_scene c = Some demo_scene" "m_jmg c = Some g"
      "m_roadmap_configs c = [[0, 0], [5, 5]]"
    and req: "goal_constraints (m_request c) = map joint_goal qs"
      "position (start_state_joint_state (m_request c)) = []"
    and res: "list_all2 (\<lambda>q i. q \<noteq> []
                \<and> fst (findClosestConfigs (joint_distance (demo_env_with f)) q [[0, 0], [5, 5]] 1 pi) = [i]) qs ids"
    and ne: "qs \<noteq> []"
    and t: "2 * real (length qs) < allowed_planning_time (m_request c) + 1"
    and c3: "c3 = c\<lparr>m_terminate_plan_time := real (ticks w) + allowed_planning_time (m_request c),
                    m_goal_states := m_goal_states c @ map Some qs,
                    m_goals := m_goals c @ map state_goal ids,
                    m_start_state := Some [0, 0]\<rparr>"
    and w3: "w3 = ros_msg ''Start state in MotionPlanRquest is not populated - using current state from planning scene.''
                   (w\<lparr>ticks := Suc (ticks w) + 2 * length qs\<rparr>)"
    and loop: "solve_loop (demo_env_with f) c3 [0, 0] [0, 0] [] (m_goals c @ map state_goal ids) [] w3
                 = (code, traj, w4)"
  shows "solve (Suc n) (demo_env_with f) c w
           = Inr (\<lparr>val = code, trajectory = traj, planning_time = Some (real (ticks w4) - real (ticks w))\<rparr>,
                  c3, tick w4)"
proof -
  let ?e = "demo_env_with f"
  let ?c1 = "c\<lparr>m_terminate_plan_time := now_at ?e (ticks w) + allowed_planning_time (m_request c)\<rparr>"
  let ?goals = "m_goals c @ map state_goal ids"
  let ?c1' = "?c1\<lparr>m_goal_states := m_goal_states ?c1 @ map Some qs\<rparr>"
  let ?w2 = "(tick w)\<lparr>ticks := ticks (tick w) + 2 * length qs\<rparr>"
  have now: "now_at ?e k = real k" for k
    by (simp add: demo_env_with_def)
  have "initRapidPlanGoals (Suc n) ?e ?c1 (map joint_goal qs) (m_goals c) (tick w)
          = Inr (True, ?goals, ?c1', ?w2)"
    using c res ne t by (intro demo_initRapidPlanGoals) (simp_all add: now)
  then have init: "initRapidPlanGoals (Suc n) ?e ?c1 (goal_constraints (m_request c)) (m_goals c) (tick w)
          = Inr (True, ?goals, ?c1', ?w2)"
    by (simp add: req)
  have scene: "m_planning_scene ?c1' = Some demo_scene"
    using c by simp
  have start: "initStartState ?e (?c1'\<lparr>m_goals := ?goals\<rparr>) ?w2 = Inr (True, [0, 0], c3, w3)"
    using c req by (simp add: initStartState_def Let_def c3 w3 now demo_env_with_def demo_scene_def tick_def)
  have loop': "solve_loop ?e c3 (current_state demo_scene) [0, 0]
                 (planningSceneToRtrCollisionVoxels ?e demo_scene (volume (m_roadmap ?c1'))) (m_goals c3) [] w3
               = (code, traj, w4)"
    using loop by (simp add: c3 demo_scene_def demo_env_with_def)
  from solve_run[OF c(1) init scene start loop'] show ?thesis
    by (simp add: now)
qed


lemma demo_empty_path:
  "\<exists>c' w'. solve (Suc 20) (demo_env_with empty_path_or_1) (with_goals [[0, 0], [5, 4], [5, 5]] demo_context) world0
      = Inr (\<lparr>val = SUCCESS, trajectory = Some [[0, 0], [5, 5]], planning_time = Some 11\<rparr>, c', w')
    \<and> map (state_ids \<circ> arg_goal \<circ> fst) (engine_log w') = [[0], [1]]
    \<and> map snd (engine_log w') = [(True, []), (True, [[0, 0], [5, 5]])]
    \<and> map state_ids (m_goals c') = [[0], [1], [1]]
    \<and> ticks w' = 12"
proof -
  let ?c = "with_goals [[0, 0], [5, 4], [5, 5]] demo_context"
  obtain c3 where c3: "c3 = ?c\<lparr>m_terminate_plan_time := real (ticks world0) + allowed_planning_time (m_request ?c),
                    m_goal_states := m_goal_states ?c @ map Some [[0, 0], [5, 4], [5, 5]],
                    m_goals := m_goals ?c @ map state_goal [0, 1, 1],
                    m_start_state := Some [0, 0]\<rparr>"
    by blast
  obtain w3 where w3: "w3 = ros_msg ''Start state in MotionPlanRquest is not populated - using current state from planning scene.''
                   (world0\<lparr>ticks := Suc (ticks world0) + 2 * length [[0, 0], [5, 4], [5, 5::real]]\<rparr>)"
    by blast
  obtain code traj w4 where
    loop: "solve_loop (demo_env_with empty_path_or_1) c3 [0, 0] [0, 0] [] (m_goals ?c @ map state_goal [0, 1, 1]) [] w3
             = (code, traj, w4)"
    by (metis prod_cases3)
  then have res: "code = SUCCESS" "traj = Some [[0, 0], [5, 5]]" "ticks w4 = 11"
    "map (state_ids \<circ> arg_goal \<circ> fst) (engine_log w4) = [[0], [1]]"
    "map snd (engine_log w4) = [(True, []), (True, [[0, 0], [5, 5]])]"
    by (auto simp: c3 w3 demo_context_def demo_request_def with_goals_def world0_def demo_env_with_def
          empty_path_or_1_def state_goal_def Let_def)
  have "solve (Suc 20) (demo_env_with empty_path_or_1) ?c world0
          = Inr (\<lparr>val = code, trajectory = traj, planning_time = Some (real (ticks w4) - real (ticks world0))\<rparr>,
                 c3, tick w4)"
    by (rule demo_solve_from_scene[where qs = "[[0, 0], [5, 4], [5, 5]]" and ids = "[0, 1, 1]", OF _ _ _ _ _ _ _ _ _ c3 w3 loop])
       (simp_all add: demo_context_def demo_request_def with_goals_def demo_closest del: One_nat_def)
  with res c3 show ?thesis
    by (simp add: world0_def state_goal_def demo_context_def with_goals_def)
qed

lemma demo_hyps:
  "m_planning_scene (with_goals qs demo_context) = Some demo_scene"
  "m_jmg (with_goals qs demo_context) \<noteq> None"
  "length (position (start_state_joint_state (m_request (with_goals qs demo_context))))
     \<le> length (name (start_state_joint_state (m_request (with_goals qs demo_context))))"
  "\<forall>k\<ge>20. now_at (demo_env_with f) (ticks world0) + allowed_planning_time (m_request (with_goals qs demo_context))
           \<le> now_at (demo_env_with f) k"
  by (simp_all add: demo_context_def demo_request_def with_goals_def demo_env_with_def world0_def)

section \<open>What a solve call leaves unchanged\<close>


section \<open>Candidates are stored in the order of the constraints\<close>

lemma resolution_trace_Nil: "resolution_trace fuel e c [] [] [w]"
  by (simp add: resolution_trace_def)

lemma resolution_trace_Cons:
  assumes "getRapidPlanGoal fuel e c gc \<lparr>goal_type = RAW_TARGET, state_ids = []\<rparr> w = Inr (ok, g, gs, w1)"
    and "resolution_trace fuel e c gcs outs ws" and "ws ! 0 = w1"
  shows "resolution_trace fuel e c (gc # gcs) ((ok, g, gs) # outs) (w # ws)"
  using assms unfolding resolution_trace_def
  by (auto simp: nth_Cons split: nat.splits)

lemma goals_loop_order:
  assumes "goals_loop fuel e c gcs goals gstates w = Inr (goals', gstates', w')"
  shows "\<exists>outs ws. resolution_trace fuel e c gcs outs ws \<and> ws ! 0 = w \<and> ws ! length gcs = w'
           \<and> goals' = goals @ map (fst \<circ> snd) (filter fst outs)
           \<and> gstates' = gstates @ map (snd \<circ> snd) (filter fst outs)"
  using assms
proof (induction gcs arbitrary: goals gstates w)
  case Nil
  then show ?case
    by (intro exI[of _ "[]"] exI[of _ "[w]"]) (simp add: resolution_trace_Nil)
next
  case (Cons gc gcs)
  from Cons.prems obtain ok g gs w1 where
    one: "getRapidPlanGoal fuel e c gc \<lparr>goal_type = RAW_TARGET, state_ids = []\<rparr> w = Inr (ok, g, gs, w1)"
    by (auto split: sum.splits)
  let ?goals1 = "if ok then goals @ [g] else goals"
  let ?gstates1 = "if ok then gstates @ [gs] else gstates"
  from Cons.prems one have "goals_loop fuel e c gcs ?goals1 ?gstates1 w1 = Inr (goals', gstates', w')"
    by (cases ok) simp_all
  from Cons.IH[OF this] obtain outs ws where
    tr: "resolution_trace fuel e c gcs outs ws" and w0: "ws ! 0 = w1" and wn: "ws ! length gcs = w'"
    and g': "goals' = ?goals1 @ map (fst \<circ> snd) (filter fst outs)"
    and s': "gstates' = ?gstates1 @ map (snd \<circ> snd) (filter fst outs)"
    by blast
  have "resolution_trace fuel e c (gc # gcs) ((ok, g, gs) # outs) (w # ws)"
    by (rule resolution_trace_Cons[OF one tr w0])
  moreover have "(w # ws) ! 0 = w" "(w # ws) ! length (gc # gcs) = w'"
    using wn by simp_all
  moreover have "goals' = goals @ map (fst \<circ> snd) (filter fst ((ok, g, gs) # outs))"
    "gstates' = gstates @ map (snd \<circ> snd) (filter fst ((ok, g, gs) # outs))"
    using g' s' by simp_all
  ultimately show ?case
    by blast
qed

section \<open>The attempt loop, call by call\<close>

lemma loop_trace_Nil: "loop_trace e deadline t0 [] [] PLANNING_FAILED"
  by (simp add: loop_trace_def)

lemma loop_trace_timed_out:
  assumes "deadline \<le> now_at e t0"
  shows "loop_trace e deadline t0 (goal # rest) [] TIMED_OUT"
  using assms by (simp add: loop_trace_def)

lemma loop_trace_accepted:
  assumes "now_at e t0 < deadline" and "arg_goal args = goal"
    and "arg_timeout args = (deadline - now_at e t0) * 1000" and "arg_solution_path args = []"
    and "accepted (solve_at e (Suc t0) args)"
  shows "loop_trace e deadline t0 (goal # rest) [(args, solve_at e (Suc t0) args)] SUCCESS"
  using assms by (simp add: loop_trace_def)

lemma loop_trace_next:
  assumes "now_at e t0 < deadline" and "arg_goal args = goal"
    and "arg_timeout args = (deadline - now_at e t0) * 1000" and "arg_solution_path args = []"
    and "\<not> accepted (solve_at e (Suc t0) args)"
    and rest: "loop_trace e deadline (t0 + 2) rest calls code"
  shows "loop_trace e deadline t0 (goal # rest) ((args, solve_at e (Suc t0) args) # calls) code"
proof -
  from rest[unfolded loop_trace_def] have len: "length calls \<le> length rest"
    and each: "\<forall>j < length calls.
           now_at e (t0 + 2 + 2 * j) < deadline
           \<and> arg_goal (fst (calls ! j)) = rest ! j
           \<and> arg_timeout (fst (calls ! j)) = (deadline - now_at e (t0 + 2 + 2 * j)) * 1000
           \<and> arg_solution_path (fst (calls ! j)) = []
           \<and> snd (calls ! j) = solve_at e (Suc (t0 + 2 + 2 * j)) (fst (calls ! j))
           \<and> (Suc j < length calls \<longrightarrow> \<not> accepted (snd (calls ! j)))"
    and fin: "if calls \<noteq> [] \<and> accepted (snd (last calls)) then code = SUCCESS
         else if length calls < length rest
           then code = TIMED_OUT \<and> deadline \<le> now_at e (t0 + 2 + 2 * length calls)
         else code = PLANNING_FAILED"
    by blast+
  let ?calls = "(args, solve_at e (Suc t0) args) # calls"
  have L: "length ?calls \<le> length (goal # rest)"
    using len by simp
  have E: "now_at e (t0 + 2 * j) < deadline
           \<and> arg_goal (fst (?calls ! j)) = (goal # rest) ! j
           \<and> arg_timeout (fst (?calls ! j)) = (deadline - now_at e (t0 + 2 * j)) * 1000
           \<and> arg_solution_path (fst (?calls ! j)) = []
           \<and> snd (?calls ! j) = solve_at e (Suc (t0 + 2 * j)) (fst (?calls ! j))
           \<and> (Suc j < length ?calls \<longrightarrow> \<not> accepted (snd (?calls ! j)))"
    if "j < length ?calls" for j
  proof (cases j)
    case 0
    with assms(1-5) show ?thesis by simp
  next
    case (Suc k)
    with that have "k < length calls" by simp
    with each have "now_at e (t0 + 2 + 2 * k) < deadline
           \<and> arg_goal (fst (calls ! k)) = rest ! k
           \<and> arg_timeout (fst (calls ! k)) = (deadline - now_at e (t0 + 2 + 2 * k)) * 1000
           \<and> arg_solution_path (fst (calls ! k)) = []
           \<and> snd (calls ! k) = solve_at e (Suc (t0 + 2 + 2 * k)) (fst (calls ! k))
           \<and> (Suc k < length calls \<longrightarrow> \<not> accepted (snd (calls ! k)))"
      by blast
    then show ?thesis
      using Suc by auto
  qed
  have F: "if ?calls \<noteq> [] \<and> accepted (snd (last ?calls)) then code = SUCCESS
         else if length ?calls < length (goal # rest)
           then code = TIMED_OUT \<and> deadline \<le> now_at e (t0 + 2 * length ?calls)
         else code = PLANNING_FAILED"
  proof (cases "calls = []")
    case True
    with fin assms(5) show ?thesis by (cases "rest = []") simp_all
  next
    case False
    have lst: "last ?calls = last calls" and ne: "?calls \<noteq> []"
      using False by simp_all
    have len': "length ?calls < length (goal # rest) \<longleftrightarrow> length calls < length rest"
      by simp
    have idx: "t0 + 2 * length ?calls = t0 + 2 + 2 * length calls"
      by simp
    consider (acc) "accepted (snd (last calls))"
      | (late) "\<not> accepted (snd (last calls))" "length calls < length rest"
      | (over) "\<not> accepted (snd (last calls))" "\<not> length calls < length rest"
      by blast
    then show ?thesis
    proof cases
      case acc
      with fin False have "code = SUCCESS"
        by (simp only: if_True simp_thms)
      with acc ne show ?thesis
        by (simp only: lst if_True simp_thms)
    next
      case late
      with fin False have "code = TIMED_OUT \<and> deadline \<le> now_at e (t0 + 2 + 2 * length calls)"
        by (simp only: if_True if_False simp_thms)
      with late show ?thesis
        by (simp only: lst len' idx if_True if_False simp_thms)
    next
      case over
      with fin False have "code = PLANNING_FAILED"
        by (simp only: if_False simp_thms)
      with over show ?thesis
        by (simp only: lst len' if_False simp_thms)
    qed
  qed
  from E have E': "\<forall>j < length ?calls.
           now_at e (t0 + 2 * j) < deadline
           \<and> arg_goal (fst (?calls ! j)) = (goal # rest) ! j
           \<and> arg_timeout (fst (?calls ! j)) = (deadline - now_at e (t0 + 2 * j)) * 1000
           \<and> arg_solution_path (fst (?calls ! j)) = []
           \<and> snd (?calls ! j) = solve_at e (Suc (t0 + 2 * j)) (fst (?calls ! j))
           \<and> (Suc j < length ?calls \<longrightarrow> \<not> accepted (snd (?calls ! j)))"
    by (intro allI impI)
  show ?thesis
    unfolding loop_trace_def by (intro conjI L E' F)
qed

lemma solve_loop_trace:
  assumes "solve_loop e c ref start vox goals [] w = (code, traj, w')"
  shows "\<exists>calls. engine_log w' = engine_log w @ calls
           \<and> loop_trace e (m_terminate_plan_time c) (ticks w) goals calls code
           \<and> ticks w' = ticks w + 2 * length calls + (if code = TIMED_OUT then 1 else 0)"
  using assms
proof (induction goals arbitrary: w)
  case Nil
  then show ?case
    by (intro exI[of _ "[]"]) (simp add: loop_trace_Nil)
next
  case (Cons goal rest)
  let ?deadline = "m_terminate_plan_time c"
  let ?timeout = "(?deadline - now_at e (ticks w)) * 1000"
  show ?case
  proof (cases "?timeout \<le> 0")
    case True
    with Cons.prems have "code = TIMED_OUT" "w' = tick w"
      by (simp_all add: Let_def)
    moreover from True have "?deadline \<le> now_at e (ticks w)"
      by simp
    ultimately show ?thesis
      by (intro exI[of _ "[]"]) (simp add: loop_trace_timed_out)
  next
    case False
    then have left: "now_at e (ticks w) < ?deadline"
      by simp
    let ?args = "\<lparr>arg_roadmap = m_roadmap c, arg_start_config = start, arg_goal = goal,
                  arg_collision_voxels = vox, arg_timeout = ?timeout, arg_solution_path = []\<rparr>"
    let ?answer = "solve_at e (Suc (ticks w)) ?args"
    let ?w2 = "(tick (tick w))\<lparr>engine_log := engine_log (tick w) @ [(?args, ?answer)]\<rparr>"
    show ?thesis
    proof (cases "accepted ?answer")
      case True
      with False Cons.prems have "code = SUCCESS" "w' = ?w2"
        by (simp_all add: Let_def accepted_def)
      moreover have "loop_trace e ?deadline (ticks w) (goal # rest) [(?args, ?answer)] SUCCESS"
        using left True by (intro loop_trace_accepted) simp_all
      ultimately show ?thesis
        by (intro exI[of _ "[(?args, ?answer)]"]) simp
    next
      case rejected: False
      obtain w3 where
        rest: "solve_loop e c ref start vox rest [] w3 = (code, traj, w')"
        and w3: "engine_log w3 = engine_log w @ [(?args, ?answer)]" "ticks w3 = ticks w + 2"
      proof (cases "fst ?answer")
        case True
        with rejected have "snd ?answer = []" by (simp add: accepted_def)
        with True False Cons.prems
        have "solve_loop e c ref start vox rest []
                (ros_msg ''Cannot convert empty path to robot trajectory'' ?w2) = (code, traj, w')"
          by (simp add: Let_def)
        with that show ?thesis by simp
      next
        case False
        with \<open>\<not> ?timeout \<le> 0\<close> Cons.prems
        have "solve_loop e c ref start vox rest [] ?w2 = (code, traj, w')"
          by (simp add: Let_def)
        with that show ?thesis by simp
      qed
      from Cons.IH[OF rest] obtain calls where
        log: "engine_log w' = engine_log w3 @ calls"
        and tr: "loop_trace e ?deadline (ticks w3) rest calls code"
        and tk: "ticks w' = ticks w3 + 2 * length calls + (if code = TIMED_OUT then 1 else 0)"
        by blast
      from tr w3 have "loop_trace e ?deadline (ticks w + 2) rest calls code"
        by simp
      with left rejected have "loop_trace e ?deadline (ticks w) (goal # rest) ((?args, ?answer) # calls) code"
        by (intro loop_trace_next) simp_all
      with log tk w3 show ?thesis
        by (intro exI[of _ "(?args, ?answer) # calls"]) simp
    qed
  qed
qed

lemma solve_structure:
  assumes run: "solve fuel e c w = Inr (r, c', w')" and cfg: "m_configured c"
  shows "\<exists>outs ws gs ss.
           resolution_trace fuel e
             (c\<lparr>m_terminate_plan_time := now_at e (ticks w) + allowed_planning_time (m_request c)\<rparr>)
             (goal_constraints (m_request c)) outs ws
         \<and> ws ! 0 = tick w
         \<and> c' = c\<lparr>m_terminate_plan_time := now_at e (ticks w) + allowed_planning_time (m_request c),
                   m_goal_states := gs,
                   m_goals := m_goals c @ map (fst \<circ> snd) (filter fst outs),
                   m_start_state := ss\<rparr>
         \<and> ((val r = FAILURE \<and> trajectory r = None \<and> engine_log w' = engine_log w)
            \<or> (\<exists>scene start vox w3 w4. m_planning_scene c = Some scene \<and> engine_log w3 = engine_log w
                  \<and> solve_loop e c' (current_state scene) start vox (m_goals c') [] w3
                       = (val r, trajectory r, w4)
                  \<and> w' = tick w4))"
proof -
  let ?T = "now_at e (ticks w) + allowed_planning_time (m_request c)"
  let ?c1 = "c\<lparr>m_terminate_plan_time := ?T\<rparr>"
  from run cfg obtain ok goals c1' w2 where
    init: "initRapidPlanGoals fuel e ?c1 (goal_constraints (m_request c)) (m_goals c) (tick w)
             = Inr (ok, goals, c1', w2)"
    by (auto simp: solve_def Let_def split: sum.splits)
  then obtain gs w1 where
    loop: "goals_loop fuel e ?c1 (goal_constraints (m_request c)) (m_goals c) (m_goal_states ?c1) (tick w)
             = Inr (goals, gs, w1)"
    and c1': "c1' = ?c1\<lparr>m_goal_states := gs\<rparr>"
    by (auto simp: initRapidPlanGoals_def Let_def split: sum.splits if_splits)
  from goals_loop_order[OF loop] obtain outs ws where
    tr: "resolution_trace fuel e ?c1 (goal_constraints (m_request c)) outs ws" and w0: "ws ! 0 = tick w"
    and goals: "goals = m_goals c @ map (fst \<circ> snd) (filter fst outs)"
    by blast
  note i = initRapidPlanGoals_result[OF init]
  let ?c2 = "c1'\<lparr>m_goals := goals\<rparr>"
  show ?thesis
  proof (cases ok)
    case False
    with run cfg init have "c' = ?c2" "val r = FAILURE" "trajectory r = None" "w' = w2"
      by (auto simp: solve_def Let_def)
    with i c1' goals have "c' = c\<lparr>m_terminate_plan_time := ?T, m_goal_states := gs,
                   m_goals := m_goals c @ map (fst \<circ> snd) (filter fst outs),
                   m_start_state := m_start_state c\<rparr>"
      and "val r = FAILURE \<and> trajectory r = None \<and> engine_log w' = engine_log w"
      by simp_all
    with tr w0 show ?thesis
      by blast
  next
    case ok: True
    from run cfg init ok obtain scene where scene: "m_planning_scene ?c2 = Some scene"
      by (auto simp: solve_def Let_def split: option.splits)
    with c1' have scene0: "m_planning_scene c = Some scene"
      by simp
    from run cfg init ok scene obtain started start c3 w3 where
      st: "initStartState e ?c2 w2 = Inr (started, start, c3, w3)"
      by (auto simp: solve_def Let_def split: sum.splits)
    from initStartState_result[OF st] obtain ss where c3: "c3 = ?c2\<lparr>m_start_state := ss\<rparr>"
      and l3: "engine_log w3 = engine_log w2"
      by auto
    from c3 c1' goals have c3': "c3 = c\<lparr>m_terminate_plan_time := ?T, m_goal_states := gs,
                   m_goals := m_goals c @ map (fst \<circ> snd) (filter fst outs),
                   m_start_state := ss\<rparr>"
      by simp
    show ?thesis
    proof (cases started)
      case False
      with run cfg init ok scene st have "c' = c3" "val r = FAILURE" "trajectory r = None" "w' = w3"
        by (auto simp: solve_def Let_def)
      with c3' l3 i have "c' = c\<lparr>m_terminate_plan_time := ?T, m_goal_states := gs,
                   m_goals := m_goals c @ map (fst \<circ> snd) (filter fst outs),
                   m_start_state := ss\<rparr>"
        and "val r = FAILURE \<and> trajectory r = None \<and> engine_log w' = engine_log w"
        by simp_all
      with tr w0 show ?thesis
        by blast
    next
      case started: True
      let ?vox = "planningSceneToRtrCollisionVoxels e scene (volume (m_roadmap ?c2))"
      obtain code traj w4 where
        sl: "solve_loop e c3 (current_state scene) start ?vox (m_goals c3) [] w3 = (code, traj, w4)"
        by (cases "solve_loop e c3 (current_state scene) start ?vox (m_goals c3) [] w3")
      with run cfg init ok scene st started
      have r: "val r = code" "trajectory r = traj" and c': "c' = c3" and w': "w' = tick w4"
        by (auto simp: solve_def Let_def)
      from sl r c' have "solve_loop e c' (current_state scene) start ?vox (m_goals c') [] w3
                           = (val r, trajectory r, w4)"
        by simp
      moreover from l3 i have "engine_log w3 = engine_log w"
        by simp
      ultimately have "\<exists>scene start vox w3 w4. m_planning_scene c = Some scene \<and> engine_log w3 = engine_log w
                  \<and> solve_loop e c' (current_state scene) start vox (m_goals c') [] w3
                       = (val r, trajectory r, w4)
                  \<and> w' = tick w4"
        using scene0 w' by blast
      with tr w0 c3' c' show ?thesis
        by blast
    qed
  qed
qed

lemma solve_trace:
  assumes run: "solve fuel e c w = Inr (r, c', w')"
  shows "m_terminate_plan_time c' = now_at e (ticks w) + allowed_planning_time (m_request c)
       \<and> (if m_configured c
           then \<exists>outs ws. resolution_trace fuel e
                    (c\<lparr>m_terminate_plan_time := now_at e (ticks w) + allowed_planning_time (m_request c)\<rparr>)
                    (goal_constraints (m_request c)) outs ws
                  \<and> ws ! 0 = tick w
                  \<and> m_goals c' = m_goals c @ map (fst \<circ> snd) (filter fst outs)
           else m_goals c' = m_goals c)
       \<and> ((val r = FAILURE \<and> trajectory r = None \<and> engine_log w' = engine_log w)
          \<or> (\<exists>t0 calls. engine_log w' = engine_log w @ calls
                \<and> loop_trace e (m_terminate_plan_time c') t0 (m_goals c') calls (val r)
                \<and> ticks w' = Suc (t0 + 2 * length calls + (if val r = TIMED_OUT then 1 else 0))))"
proof (cases "m_configured c")
  case False
  with run show ?thesis
    by (auto simp: solve_def Let_def)
next
  case True
  from solve_structure[OF run True] obtain outs ws gs ss where
    tr: "resolution_trace fuel e
             (c\<lparr>m_terminate_plan_time := now_at e (ticks w) + allowed_planning_time (m_request c)\<rparr>)
             (goal_constraints (m_request c)) outs ws"
    and w0: "ws ! 0 = tick w"
    and c': "c' = c\<lparr>m_terminate_plan_time := now_at e (ticks w) + allowed_planning_time (m_request c),
                   m_goal_states := gs,
                   m_goals := m_goals c @ map (fst \<circ> snd) (filter fst outs),
                   m_start_state := ss\<rparr>"
    and out: "(val r = FAILURE \<and> trajectory r = None \<and> engine_log w' = engine_log w)
            \<or> (\<exists>scene start vox w3 w4. m_planning_scene c = Some scene \<and> engine_log w3 = engine_log w
                  \<and> solve_loop e c' (current_state scene) start vox (m_goals c') [] w3
                       = (val r, trajectory r, w4)
                  \<and> w' = tick w4)"
    by blast
  from c' have T: "m_terminate_plan_time c' = now_at e (ticks w) + allowed_planning_time (m_request c)"
    and G: "m_goals c' = m_goals c @ map (fst \<circ> snd) (filter fst outs)"
    by simp_all
  have "(val r = FAILURE \<and> trajectory r = None \<and> engine_log w' = engine_log w)
          \<or> (\<exists>t0 calls. engine_log w' = engine_log w @ calls
                \<and> loop_trace e (m_terminate_plan_time c') t0 (m_goals c') calls (val r)
                \<and> ticks w' = Suc (t0 + 2 * length calls + (if val r = TIMED_OUT then 1 else 0)))"
    using out
  proof (elim disjE exE conjE)
    assume "val r = FAILURE" "trajectory r = None" "engine_log w' = engine_log w"
    then show ?thesis by blast
  next
    fix scene start vox w3 w4
    assume l3: "engine_log w3 = engine_log w"
      and sl: "solve_loop e c' (current_state scene) start vox (m_goals c') [] w3 = (val r, trajectory r, w4)"
      and w': "w' = tick w4"
    from solve_loop_trace[OF sl] obtain calls where
      "engine_log w4 = engine_log w3 @ calls"
      "loop_trace e (m_terminate_plan_time c') (ticks w3) (m_goals c') calls (val r)"
      "ticks w4 = ticks w3 + 2 * length calls + (if val r = TIMED_OUT then 1 else 0)"
      by blast
    with l3 w' have "engine_log w' = engine_log w @ calls
                \<and> loop_trace e (m_terminate_plan_time c') (ticks w3) (m_goals c') calls (val r)
                \<and> ticks w' = Suc (ticks w3 + 2 * length calls + (if val r = TIMED_OUT then 1 else 0))"
      by simp
    then show ?thesis by blast
  qed
  with T G tr w0 True show ?thesis
    by auto
qed

section \<open>First success wins\<close>



section \<open>An empty path is not a success\<close>

text \<open>
  C2. When the search engine reports success with an empty path for a candidate, that
  call does not end the solve call with SUCCESS: the result is SUCCESS only when the
  last answer has a non-empty path. After such an answer the loop reads the clock; if
  it shows time left before the deadline, the next candidate of the list is passed to
  the engine; if it has reached the deadline and a candidate is left, the result is
  TIMED_OUT; if no candidate is left, the result is PLANNING_FAILED. The clock
  readings and the answers of the engine are those of the external calls in their
  order: with \<open>t0\<close> calls made before the loop, the clock is read for candidate \<open>j\<close>
  as call \<open>t0 + 2 * j\<close> and the engine answers as call \<open>t0 + 2 * j + 1\<close>. The
  candidate list is in resolution order, as for C1.
\<close>

theorem empty_path_is_not_success:
  assumes "m_planning_scene c \<noteq> None" and "m_jmg c \<noteq> None"
    and "length (position (start_state_joint_state (m_request c)))
           \<le> length (name (start_state_joint_state (m_request c)))"
    and "\<forall>k\<ge>K. now_at e (ticks w) + allowed_planning_time (m_request c) \<le> now_at e k" and "K < fuel"
  shows "\<exists>r c' w' calls t0. solve fuel e c w = Inr (r, c', w')
           \<and> engine_log w' = engine_log w @ calls
           \<and> m_terminate_plan_time c' = now_at e (ticks w) + allowed_planning_time (m_request c)
           \<and> (if m_configured c
               then \<exists>outs ws. resolution_trace fuel e
                        (c\<lparr>m_terminate_plan_time := now_at e (ticks w) + allowed_planning_time (m_request c)\<rparr>)
                        (goal_constraints (m_request c)) outs ws
                      \<and> ws ! 0 = tick w
                      \<and> m_goals c' = m_goals c @ map (fst \<circ> snd) (filter fst outs)
               else m_goals c' = m_goals c)
           \<and> (calls \<noteq> [] \<longrightarrow>
                 ticks w' = Suc (t0 + 2 * length calls + (if val r = TIMED_OUT then 1 else 0)))
           \<and> (\<forall>j < length calls.
                 now_at e (t0 + 2 * j) < m_terminate_plan_time c'
                 \<and> arg_goal (fst (calls ! j)) = m_goals c' ! j
                 \<and> snd (calls ! j) = solve_at e (Suc (t0 + 2 * j)) (fst (calls ! j)))
           \<and> (val r = SUCCESS \<longrightarrow> calls \<noteq> [] \<and> accepted (snd (last calls)))
           \<and> (\<forall>i < length calls. snd (calls ! i) = (True, []) \<longrightarrow>
                 (Suc i < length calls \<and> arg_goal (fst (calls ! Suc i)) = m_goals c' ! Suc i
                    \<and> now_at e (t0 + 2 * Suc i) < m_terminate_plan_time c')
                 \<or> (Suc i = length calls \<and> Suc i < length (m_goals c') \<and> val r = TIMED_OUT
                    \<and> m_terminate_plan_time c' \<le> now_at e (t0 + 2 * Suc i))
                 \<or> (Suc i = length calls \<and> Suc i = length (m_goals c') \<and> val r = PLANNING_FAILED))"
proof -
  from solve_returns[OF assms] obtain r c' w' where run: "solve fuel e c w = Inr (r, c', w')"
    by blast
  note st = solve_trace[OF run]
  from st have T: "m_terminate_plan_time c' = now_at e (ticks w) + allowed_planning_time (m_request c)"
    by (rule conjunct1)
  from st have order: "if m_configured c
               then \<exists>outs ws. resolution_trace fuel e
                        (c\<lparr>m_terminate_plan_time := now_at e (ticks w) + allowed_planning_time (m_request c)\<rparr>)
                        (goal_constraints (m_request c)) outs ws
                      \<and> ws ! 0 = tick w
                      \<and> m_goals c' = m_goals c @ map (fst \<circ> snd) (filter fst outs)
               else m_goals c' = m_goals c"
    by (rule conjunct1[OF conjunct2])
  from st have "(val r = FAILURE \<and> trajectory r = None \<and> engine_log w' = engine_log w)
          \<or> (\<exists>t0 calls. engine_log w' = engine_log w @ calls
                \<and> loop_trace e (m_terminate_plan_time c') t0 (m_goals c') calls (val r)
                \<and> ticks w' = Suc (t0 + 2 * length calls + (if val r = TIMED_OUT then 1 else 0)))"
    by (rule conjunct2[OF conjunct2])
  then show ?thesis
  proof (elim disjE exE conjE)
    assume "val r = FAILURE" and "engine_log w' = engine_log w"
    with run T order show ?thesis
      by (intro exI[of _ r] exI[of _ c'] exI[of _ w'] exI[of _ "[]"] exI[of _ 0] conjI) simp_all
  next
    fix t0 calls
    let ?T = "m_terminate_plan_time c'"
    assume log: "engine_log w' = engine_log w @ calls"
      and tr: "loop_trace e ?T t0 (m_goals c') calls (val r)"
      and tk: "ticks w' = Suc (t0 + 2 * length calls + (if val r = TIMED_OUT then 1 else 0))"
    from tr[unfolded loop_trace_def] have len: "length calls \<le> length (m_goals c')"
      and each: "\<forall>j < length calls.
           now_at e (t0 + 2 * j) < ?T
           \<and> arg_goal (fst (calls ! j)) = m_goals c' ! j
           \<and> arg_timeout (fst (calls ! j)) = (?T - now_at e (t0 + 2 * j)) * 1000
           \<and> arg_solution_path (fst (calls ! j)) = []
           \<and> snd (calls ! j) = solve_at e (Suc (t0 + 2 * j)) (fst (calls ! j))
           \<and> (Suc j < length calls \<longrightarrow> \<not> accepted (snd (calls ! j)))"
      and fin: "if calls \<noteq> [] \<and> accepted (snd (last calls)) then val r = SUCCESS
         else if length calls < length (m_goals c')
           then val r = TIMED_OUT \<and> ?T \<le> now_at e (t0 + 2 * length calls)
         else val r = PLANNING_FAILED"
      by blast+
    from each have A: "\<forall>j < length calls.
                 now_at e (t0 + 2 * j) < ?T
                 \<and> arg_goal (fst (calls ! j)) = m_goals c' ! j
                 \<and> snd (calls ! j) = solve_at e (Suc (t0 + 2 * j)) (fst (calls ! j))"
      by blast
    from fin have B: "val r = SUCCESS \<longrightarrow> calls \<noteq> [] \<and> accepted (snd (last calls))"
      by (auto split: if_splits)
    have C: "(Suc i < length calls \<and> arg_goal (fst (calls ! Suc i)) = m_goals c' ! Suc i
                    \<and> now_at e (t0 + 2 * Suc i) < ?T)
                 \<or> (Suc i = length calls \<and> Suc i < length (m_goals c') \<and> val r = TIMED_OUT
                    \<and> ?T \<le> now_at e (t0 + 2 * Suc i))
                 \<or> (Suc i = length calls \<and> Suc i = length (m_goals c') \<and> val r = PLANNING_FAILED)"
      if i: "i < length calls" and empty: "snd (calls ! i) = (True, [])" for i
    proof (cases "Suc i < length calls")
      case True
      with each have "now_at e (t0 + 2 * Suc i) < ?T \<and> arg_goal (fst (calls ! Suc i)) = m_goals c' ! Suc i"
        by blast
      with True show ?thesis by blast
    next
      case False
      with i have last: "Suc i = length calls" by simp
      with i have "last calls = calls ! i"
        by (metis diff_Suc_1 last_conv_nth length_0_conv not_less_zero)
      with empty have na: "\<not> accepted (snd (last calls))"
        by (simp add: accepted_def)
      show ?thesis
      proof (cases "length calls < length (m_goals c')")
        case True
        with fin na have "val r = TIMED_OUT \<and> ?T \<le> now_at e (t0 + 2 * length calls)"
          by simp
        with True last show ?thesis by simp
      next
        case False
        with fin na have "val r = PLANNING_FAILED" by simp
        moreover from False len have "length calls = length (m_goals c')" by simp
        ultimately show ?thesis using last by simp
      qed
    qed
    then have C': "\<forall>i < length calls. snd (calls ! i) = (True, []) \<longrightarrow>
                 (Suc i < length calls \<and> arg_goal (fst (calls ! Suc i)) = m_goals c' ! Suc i
                    \<and> now_at e (t0 + 2 * Suc i) < ?T)
                 \<or> (Suc i = length calls \<and> Suc i < length (m_goals c') \<and> val r = TIMED_OUT
                    \<and> ?T \<le> now_at e (t0 + 2 * Suc i))
                 \<or> (Suc i = length calls \<and> Suc i = length (m_goals c') \<and> val r = PLANNING_FAILED)"
      by blast
    from tk have D: "calls \<noteq> [] \<longrightarrow>
                 ticks w' = Suc (t0 + 2 * length calls + (if val r = TIMED_OUT then 1 else 0))"
      by blast
    from run log T order D A B C' show ?thesis
      by (intro exI[of _ r] exI[of _ c'] exI[of _ w'] exI[of _ calls] exI[of _ t0] conjI)
  qed
qed

theorem empty_path_is_not_success_witness:
  "\<exists>r c' w' calls. solve (Suc 20) (demo_env_with empty_path_or_1)
                       (with_goals [[0, 0], [5, 4], [5, 5]] demo_context) world0 = Inr (r, c', w')
     \<and> engine_log w' = engine_log world0 @ calls
     \<and> map snd calls = [(True, []), (True, [[0, 0], [5, 5]])]
     \<and> map (state_ids \<circ> arg_goal \<circ> fst) calls = [[0], [1]]
     \<and> map state_ids (m_goals c') = [[0], [1], [1]]
     \<and> arg_goal (fst (calls ! Suc 0)) = m_goals c' ! Suc 0
     \<and> ticks w' = 12
     \<and> m_terminate_plan_time c' = 20
     \<and> now_at (demo_env_with empty_path_or_1) 9 < m_terminate_plan_time c'
     \<and> val r = SUCCESS"
proof -
  let ?c = "with_goals [[0, 0], [5, 4], [5, 5]] demo_context"
  let ?e = "demo_env_with empty_path_or_1"
  have "m_planning_scene ?c \<noteq> None"
    by (simp add: demo_hyps)
  from empty_path_is_not_success[OF this demo_hyps(2-4) lessI, of empty_path_or_1]
  obtain r c' w' calls t0 where run: "solve (Suc 20) ?e ?c world0 = Inr (r, c', w')"
    and log: "engine_log w' = engine_log world0 @ calls"
    and T: "m_terminate_plan_time c' = now_at ?e (ticks world0) + allowed_planning_time (m_request ?c)"
    and tk: "calls \<noteq> [] \<longrightarrow>
                 ticks w' = Suc (t0 + 2 * length calls + (if val r = TIMED_OUT then 1 else 0))"
    and cont: "\<forall>i < length calls. snd (calls ! i) = (True, []) \<longrightarrow>
                 (Suc i < length calls \<and> arg_goal (fst (calls ! Suc i)) = m_goals c' ! Suc i
                    \<and> now_at ?e (t0 + 2 * Suc i) < m_terminate_plan_time c')
                 \<or> (Suc i = length calls \<and> Suc i < length (m_goals c') \<and> val r = TIMED_OUT
                    \<and> m_terminate_plan_time c' \<le> now_at ?e (t0 + 2 * Suc i))
                 \<or> (Suc i = length calls \<and> Suc i = length (m_goals c') \<and> val r = PLANNING_FAILED)"
    by (elim exE conjE) blast
  from demo_empty_path run
  have res: "val r = SUCCESS"
    "map (state_ids \<circ> arg_goal \<circ> fst) (engine_log w') = [[0], [1]]"
    "map snd (engine_log w') = [(True, []), (True, [[0, 0], [5, 5]])]"
    "map state_ids (m_goals c') = [[0], [1], [1]]"
    "ticks w' = 12"
    by auto
  from log have calls: "engine_log w' = calls"
    by (simp add: world0_def)
  from res(3) calls have two: "length calls = 2" "snd (calls ! 0) = (True, [])"
    by (auto simp: map_eq_Cons_conv)
  with tk res(1,5) have t0: "t0 = 7"
    by auto
  from two cont res(1) have "arg_goal (fst (calls ! Suc 0)) = m_goals c' ! Suc 0
      \<and> now_at ?e (t0 + 2 * Suc 0) < m_terminate_plan_time c'"
    by force
  with t0 have next_call: "arg_goal (fst (calls ! Suc 0)) = m_goals c' ! Suc 0"
    "now_at ?e 9 < m_terminate_plan_time c'"
    by simp_all
  from T have T': "m_terminate_plan_time c' = 20"
    by (simp add: demo_env_with_def world0_def with_goals_def demo_context_def demo_request_def)
  from run log res calls next_call T' show ?thesis
    by auto
qed

section \<open>configure\<close>

lemma configure_result:
  assumes "configure e c w = Inr (code, c', w')"
  shows "(code = SUCCESS \<or> code = FAILURE)
       \<and> (code = SUCCESS \<longrightarrow> m_configured c' \<and> m_roadmap_configs c' \<noteq> []
             \<and> length (m_roadmap_configs c' ! 0) = length (m_joint_model_names c')
             \<and> m_roadmap_poses c' \<noteq> [])
       \<and> (code = FAILURE \<longrightarrow> m_configured c' = m_configured c)
       \<and> (m_planning_scene c \<noteq> None \<longrightarrow> ticks w < ticks w')
       \<and> m_planning_scene c' = m_planning_scene c"
  using assms
  by (auto simp: configure_def Let_def split: option.splits prod.splits if_splits)

text \<open>
  C6, as amended. After a successful configure the flag is set, the loaded
  configuration set is not empty and its first vector has as many entries as the
  planning group has active joints; every vector has, when all vectors of the set have
  one length. When the loaded set is empty or its first vector has another length,
  configure reports FAILURE and leaves the flag as it was.
\<close>

theorem configure_checks_first_config:
  assumes "configure e c w = Inr (code, c', w')"
  shows "(code = SUCCESS \<longrightarrow>
            m_configured c' \<and> m_roadmap_configs c' \<noteq> []
            \<and> length (m_roadmap_configs c' ! 0) = length (m_joint_model_names c')
            \<and> ((\<forall>u \<in> set (m_roadmap_configs c'). \<forall>v \<in> set (m_roadmap_configs c'). length u = length v)
                 \<longrightarrow> (\<forall>v \<in> set (m_roadmap_configs c'). length v = length (m_joint_model_names c'))))
       \<and> (m_roadmap_configs c' = [] \<or> length (m_roadmap_configs c' ! 0) \<noteq> length (m_joint_model_names c')
            \<longrightarrow> code = FAILURE \<and> m_configured c' = m_configured c)"
proof -
  note r = configure_result[OF assms]
  have "\<forall>v \<in> set (m_roadmap_configs c'). length v = length (m_joint_model_names c')"
    if "code = SUCCESS"
      and same: "\<forall>u \<in> set (m_roadmap_configs c'). \<forall>v \<in> set (m_roadmap_configs c'). length u = length v"
  proof
    fix v assume v: "v \<in> set (m_roadmap_configs c')"
    from r that(1) have "m_roadmap_configs c' ! 0 \<in> set (m_roadmap_configs c')"
      and "length (m_roadmap_configs c' ! 0) = length (m_joint_model_names c')"
      by auto
    with same v show "length v = length (m_joint_model_names c')"
      by metis
  qed
  with r show ?thesis
    by blast
qed

lemma demo_configure:
  "configure demo_env unconfigured_context world0
     = Inr (SUCCESS,
            unconfigured_context\<lparr>m_jmg := Some \<lparr>active_joint_model_names = [''a'', ''b'']\<rparr>,
              m_joint_model_names := [''a'', ''b''], m_roadmap_configs := [[0, 0], [5, 5]],
              m_roadmap_poses := [[0, 0, 0], [1, 1, 1]], m_configured := True\<rparr>,
            \<lparr>ticks = 3, engine_log = [], ros_log = []\<rparr>)"
  by (simp add: configure_def demo_env_def demo_env_with_def unconfigured_context_def demo_scene_def world0_def
        tick_def Let_def)

theorem configure_checks_first_config_witness:
  "configure demo_env unconfigured_context world0
     = Inr (SUCCESS,
            unconfigured_context\<lparr>m_jmg := Some \<lparr>active_joint_model_names = [''a'', ''b'']\<rparr>,
              m_joint_model_names := [''a'', ''b''], m_roadmap_configs := [[0, 0], [5, 5]],
              m_roadmap_poses := [[0, 0, 0], [1, 1, 1]], m_configured := True\<rparr>,
            \<lparr>ticks = 3, engine_log = [], ros_log = []\<rparr>)
   \<and> length ([[0, 0], [5, 5::real]] ! 0) = length [''a'', ''b'']
   \<and> length ([[0, 0], [5, 5::real]] ! 1) = length [''a'', ''b'']"
  using configure_checks_first_config[OF demo_configure] demo_configure
  by simp

text \<open>
  Only the first vector is compared with the joint count: a set whose second vector is
  shorter is accepted.
\<close>

theorem configure_ragged_counterexample:
  "fst (projr (configure ragged_env unconfigured_context world0)) = SUCCESS
   \<and> \<not> isl (configure ragged_env unconfigured_context world0)
   \<and> m_configured (fst (snd (projr (configure ragged_env unconfigured_context world0))))
   \<and> m_roadmap_configs (fst (snd (projr (configure ragged_env unconfigured_context world0)))) = [[0, 0], [5]]
   \<and> m_joint_model_names (fst (snd (projr (configure ragged_env unconfigured_context world0)))) = [''a'', ''b'']"
  by (simp add: configure_def ragged_env_def demo_env_def demo_env_with_def unconfigured_context_def demo_scene_def
        world0_def tick_def Let_def)

text \<open>
  C7, as amended. configure never reads the flag: whatever its value, an invocation
  does the same work and reports the same code. The flag is set on SUCCESS and left as
  it was on FAILURE, and with a planning scene set every invocation calls the planner
  interface again.
\<close>

theorem configure_ignores_flag:
  "configure e (c\<lparr>m_configured := b\<rparr>) w
     = map_sum id (\<lambda>(code, c', w'). (code, c'\<lparr>m_configured := (code = SUCCESS \<or> b)\<rparr>, w')) (configure e c w)
   \<and> (\<forall>code c' w'. configure e c w = Inr (code, c', w') \<longrightarrow>
         (m_configured c' \<longleftrightarrow> code = SUCCESS \<or> m_configured c)
         \<and> (m_planning_scene c \<noteq> None \<longrightarrow> ticks w < ticks w'))"
proof
  show "configure e (c\<lparr>m_configured := b\<rparr>) w
     = map_sum id (\<lambda>(code, c', w'). (code, c'\<lparr>m_configured := (code = SUCCESS \<or> b)\<rparr>, w')) (configure e c w)"
    by (simp add: configure_def Let_def split: option.splits prod.splits)
  show "\<forall>code c' w'. configure e c w = Inr (code, c', w') \<longrightarrow>
         (m_configured c' \<longleftrightarrow> code = SUCCESS \<or> m_configured c)
         \<and> (m_planning_scene c \<noteq> None \<longrightarrow> ticks w < ticks w')"
    using configure_result by blast
qed

lemma reconfigure:
  "configured_once = (unconfigured_context\<lparr>m_jmg := Some \<lparr>active_joint_model_names = [''a'', ''b'']\<rparr>,
              m_joint_model_names := [''a'', ''b''], m_roadmap_configs := [[0, 0], [5, 5]],
              m_roadmap_poses := [[0, 0, 0], [1, 1, 1]], m_configured := True\<rparr>,
            \<lparr>ticks = 3, engine_log = [], ros_log = []\<rparr>)"
  "configured_twice = (unconfigured_context\<lparr>m_jmg := Some \<lparr>active_joint_model_names = [''a'', ''b'']\<rparr>,
              m_joint_model_names := [''a'', ''b''], m_roadmap_configs := [[1, 1]],
              m_roadmap_poses := [[0, 0, 0], [1, 1, 1]], m_configured := True\<rparr>,
            \<lparr>ticks = 6, engine_log = [], ros_log = []\<rparr>)"
  by (simp_all add: configured_twice_def configured_once_def configure_def changing_env_def demo_env_def
        demo_env_with_def unconfigured_context_def demo_scene_def world0_def tick_def Let_def)

text \<open>
  A second configure on a configured context loads the roadmap again and replaces the
  stored configurations.
\<close>

theorem configure_twice_counterexample:
  "m_configured (fst configured_once)
   \<and> m_roadmap_configs (fst configured_once) = [[0, 0], [5, 5]]
   \<and> m_configured (fst configured_twice)
   \<and> m_roadmap_configs (fst configured_twice) = [[1, 1]]
   \<and> fst configured_twice \<noteq> fst configured_once
   \<and> ticks (snd configured_once) = 3 \<and> ticks (snd configured_twice) = 6"
  by (simp add: reconfigure unconfigured_context_def)

theorem configure_ignores_flag_witness:
  "configure demo_env (unconfigured_context\<lparr>m_configured := True\<rparr>) world0
     = Inr (SUCCESS,
            unconfigured_context\<lparr>m_jmg := Some \<lparr>active_joint_model_names = [''a'', ''b'']\<rparr>,
              m_joint_model_names := [''a'', ''b''], m_roadmap_configs := [[0, 0], [5, 5]],
              m_roadmap_poses := [[0, 0, 0], [1, 1, 1]], m_configured := True\<rparr>,
            \<lparr>ticks = 3, engine_log = [], ros_log = []\<rparr>)
   \<and> ticks world0 < 3"
  using configure_ignores_flag[where e = demo_env and c = unconfigured_context and b = True and w = world0] demo_configure
  by (simp add: world0_def)

section \<open>A deadline that has passed\<close>

lemma getRapidPlanGoal_late:
  assumes "m_planning_scene c \<noteq> None" and "m_jmg c \<noteq> None"
    and "m_terminate_plan_time c \<le> now_at e (ticks w)"
  shows "getRapidPlanGoal (Suc n) e c gc goal w = Inr (False, goal\<lparr>goal_type := STATE_IDS\<rparr>, None, tick w)"
  using assms by (auto simp: getRapidPlanGoal_def)

lemma goals_loop_late:
  assumes "m_planning_scene c \<noteq> None" and "m_jmg c \<noteq> None"
    and "\<forall>k\<ge>ticks w. m_terminate_plan_time c \<le> now_at e k"
  shows "goals_loop (Suc n) e c gcs goals gstates w = Inr (goals, gstates, w\<lparr>ticks := ticks w + length gcs\<rparr>)"
  using assms(3)
proof (induction gcs arbitrary: w)
  case Nil
  then show ?case by simp
next
  case (Cons gc gcs)
  from Cons.prems have "m_terminate_plan_time c \<le> now_at e (ticks w)"
    by simp
  from getRapidPlanGoal_late[OF assms(1,2) this]
  have one: "getRapidPlanGoal (Suc n) e c gc \<lparr>goal_type = RAW_TARGET, state_ids = []\<rparr> w
               = Inr (False, \<lparr>goal_type = STATE_IDS, state_ids = []\<rparr>, None, tick w)"
    by simp
  from Cons.prems have "\<forall>k\<ge>ticks (tick w). m_terminate_plan_time c \<le> now_at e k"
    by simp
  from Cons.IH[OF this] one show ?case
    by (simp add: tick_def)
qed

lemma solve_late:
  assumes "m_goals c = []" and "allowed_planning_time (m_request c) \<le> 0"
    and "\<forall>k\<ge>ticks w. now_at e (ticks w) \<le> now_at e k"
    and "m_planning_scene c \<noteq> None" and "m_jmg c \<noteq> None"
  shows "\<exists>c' w'. solve (Suc n) e c w = Inr (\<lparr>val = FAILURE, trajectory = None, planning_time = None\<rparr>, c', w')
           \<and> engine_log w' = engine_log w \<and> m_goals c' = [] \<and> m_goal_states c' = m_goal_states c"
proof (cases "m_configured c")
  case False
  then show ?thesis
    using assms(1) by (simp add: solve_unconfigured)
next
  case True
  let ?c1 = "c\<lparr>m_terminate_plan_time := now_at e (ticks w) + allowed_planning_time (m_request c)\<rparr>"
  have late: "\<forall>k\<ge>ticks (tick w). m_terminate_plan_time ?c1 \<le> now_at e k"
  proof (intro allI impI)
    fix k assume "ticks (tick w) \<le> k"
    then have "ticks w \<le> k" by simp
    with assms(3) have "now_at e (ticks w) \<le> now_at e k" by blast
    with assms(2) show "m_terminate_plan_time ?c1 \<le> now_at e k" by simp
  qed
  have "goals_loop (Suc n) e ?c1 (goal_constraints (m_request c)) [] (m_goal_states ?c1) (tick w)
          = Inr ([], m_goal_states ?c1, (tick w)\<lparr>ticks := ticks (tick w) + length (goal_constraints (m_request c))\<rparr>)"
    using assms(4,5) late by (intro goals_loop_late) simp_all
  from initRapidPlanGoals_run[OF this] assms(1)
  obtain w2 where init: "initRapidPlanGoals (Suc n) e ?c1 (goal_constraints (m_request c)) (m_goals c) (tick w)
                           = Inr (False, [], ?c1\<lparr>m_goal_states := m_goal_states ?c1\<rparr>, w2)"
    and log: "engine_log w2 = engine_log w"
    by (cases "goal_constraints (m_request c) = []") simp_all
  from solve_no_goals[OF True init] log show ?thesis
    by simp
qed

text \<open>
  C4, as amended. A solve call entered after its deadline (the allowed planning time
  is zero or negative and the clock does not run backwards), on a context that holds
  no goal candidates, returns FAILURE: no constraint is resolved, the search engine is
  not called, and neither a trajectory nor an elapsed time is reported.
\<close>

theorem passed_deadline_fails:
  assumes "m_goals c = []" and "allowed_planning_time (m_request c) \<le> 0"
    and "\<forall>k\<ge>ticks w. now_at e (ticks w) \<le> now_at e k"
    and "m_planning_scene c \<noteq> None" and "m_jmg c \<noteq> None" and "0 < fuel"
  shows "\<exists>c' w'. solve fuel e c w = Inr (\<lparr>val = FAILURE, trajectory = None, planning_time = None\<rparr>, c', w')
           \<and> engine_log w' = engine_log w \<and> m_goals c' = []"
proof -
  from assms(6) obtain n where "fuel = Suc n"
    by (cases fuel) simp_all
  with solve_late[OF assms(1-5), of n] show ?thesis
    by auto
qed

lemma demo_late_hyps:
  "m_goals (no_time (with_goals qs demo_context)) = []"
  "allowed_planning_time (m_request (no_time (with_goals qs demo_context))) \<le> 0"
  "\<forall>k\<ge>ticks world0. now_at demo_env (ticks world0) \<le> now_at demo_env k"
  "m_planning_scene (no_time (with_goals qs demo_context)) \<noteq> None"
  "m_jmg (no_time (with_goals qs demo_context)) \<noteq> None"
  "m_configured (no_time (with_goals qs demo_context))"
  by (simp_all add: no_time_def with_goals_def demo_context_def demo_env_def demo_env_with_def world0_def)

theorem passed_deadline_fails_witness:
  "\<exists>c' w'. solve (Suc 0) demo_env (no_time (with_goals [[5, 4]] demo_context)) world0
             = Inr (\<lparr>val = FAILURE, trajectory = None, planning_time = None\<rparr>, c', w')
     \<and> engine_log w' = engine_log world0 \<and> m_goals c' = []"
  using passed_deadline_fails[OF demo_late_hyps(1-5), of "Suc 0" "[[5, 4]]"]
  by simp

text \<open>
  On a configured context with a goal constraint that the roadmap can meet, a solve
  call entered with no time left does not return TIMED_OUT.
\<close>

theorem passed_deadline_counterexample:
  "\<not> isl (solve (Suc 0) demo_env (no_time (with_goals [[5, 4]] demo_context)) world0)
   \<and> val (fst (projr (solve (Suc 0) demo_env (no_time (with_goals [[5, 4]] demo_context)) world0))) = FAILURE
   \<and> val (fst (projr (solve (Suc 0) demo_env (no_time (with_goals [[5, 4]] demo_context)) world0))) \<noteq> TIMED_OUT
   \<and> m_configured (no_time (with_goals [[5, 4]] demo_context))
   \<and> allowed_planning_time (m_request (no_time (with_goals [[5, 4]] demo_context))) = 0"
proof -
  from solve_late[OF demo_late_hyps(1-5), of 0 "[[5, 4]]"]
  obtain c' w' where "solve (Suc 0) demo_env (no_time (with_goals [[5, 4]] demo_context)) world0
             = Inr (\<lparr>val = FAILURE, trajectory = None, planning_time = None\<rparr>, c', w')"
    by blast
  then show ?thesis
    by (simp add: demo_late_hyps(6)) (simp add: no_time_def)
qed

section \<open>A context that is used twice\<close>

lemma demo_first_call:
  "\<exists>w1. first_call = (\<lparr>val = SUCCESS, trajectory = Some [[0, 0], [5, 5]], planning_time = Some 5\<rparr>,
                       (with_goals [[5, 4]] demo_context)\<lparr>m_terminate_plan_time := 20, m_goal_states := [Some [5, 4]],
                          m_goals := [state_goal 1], m_start_state := Some [0, 0]\<rparr>, w1)
     \<and> ticks w1 = 6 \<and> map (state_ids \<circ> arg_goal \<circ> fst) (engine_log w1) = [[1]]
     \<and> ros_log w1 = [''Start state in MotionPlanRquest is not populated - using current state from planning scene.'']"
proof -
  let ?c = "with_goals [[5, 4]] demo_context"
  obtain c3 where c3: "c3 = ?c\<lparr>m_terminate_plan_time := real (ticks world0) + allowed_planning_time (m_request ?c),
                    m_goal_states := m_goal_states ?c @ map Some [[5, 4]],
                    m_goals := m_goals ?c @ map state_goal [1],
                    m_start_state := Some [0, 0]\<rparr>"
    by blast
  obtain w3 where w3: "w3 = ros_msg ''Start state in MotionPlanRquest is not populated - using current state from planning scene.''
                   (world0\<lparr>ticks := Suc (ticks world0) + 2 * length [[5, 4::real]]\<rparr>)"
    by blast
  obtain code traj w4 where
    loop: "solve_loop (demo_env_with path_to_1) c3 [0, 0] [0, 0] [] (m_goals ?c @ map state_goal [1]) [] w3
             = (code, traj, w4)"
    by (metis prod_cases3)
  then have res: "code = SUCCESS" "traj = Some [[0, 0], [5, 5]]" "ticks w4 = 5"
    "map (state_ids \<circ> arg_goal \<circ> fst) (engine_log w4) = [[1]]"
    "ros_log w4 = [''Start state in MotionPlanRquest is not populated - using current state from planning scene.'']"
    by (auto simp: c3 w3 demo_context_def demo_request_def with_goals_def world0_def demo_env_with_def
          path_to_1_def state_goal_def Let_def ros_msg_def)
  have "solve (Suc (Suc 0)) (demo_env_with path_to_1) ?c world0
          = Inr (\<lparr>val = code, trajectory = traj, planning_time = Some (real (ticks w4) - real (ticks world0))\<rparr>,
                 c3, tick w4)"
    by (rule demo_solve_from_scene[where qs = "[[5, 4]]" and ids = "[1]", OF _ _ _ _ _ _ _ _ _ c3 w3 loop])
       (simp_all add: demo_context_def demo_request_def with_goals_def demo_closest del: One_nat_def)
  with res c3 show ?thesis
    by (simp add: first_call_def demo_env_def world0_def demo_context_def demo_request_def with_goals_def)
qed

lemma demo_second_call:
  "\<exists>c2 w2. second_call = Inr (\<lparr>val = SUCCESS, trajectory = Some [[0, 0], [5, 5]], planning_time = Some 5\<rparr>, c2, w2)
     \<and> map state_ids (m_goals c2) = [[1], [0]]
     \<and> goal_constraints (m_request c2) = [joint_goal [0, 0]]
     \<and> map (state_ids \<circ> arg_goal \<circ> fst) (engine_log w2) = [[1], [1]]"
proof -
  from demo_first_call obtain r1 c1 w1 where fc: "first_call = (r1, c1, w1)"
    and c1: "c1 = (with_goals [[5, 4]] demo_context)\<lparr>m_terminate_plan_time := 20, m_goal_states := [Some [5, 4]],
                          m_goals := [state_goal 1], m_start_state := Some [0, 0]\<rparr>"
    and w1: "ticks w1 = 6" "map (state_ids \<circ> arg_goal \<circ> fst) (engine_log w1) = [[1]]"
    by auto
  let ?c = "with_goals [[0, 0]] c1"
  obtain c3 where c3: "c3 = ?c\<lparr>m_terminate_plan_time := real (ticks w1) + allowed_planning_time (m_request ?c),
                    m_goal_states := m_goal_states ?c @ map Some [[0, 0]],
                    m_goals := m_goals ?c @ map state_goal [0],
                    m_start_state := Some [0, 0]\<rparr>"
    by blast
  obtain w3 where w3: "w3 = ros_msg ''Start state in MotionPlanRquest is not populated - using current state from planning scene.''
                   (w1\<lparr>ticks := Suc (ticks w1) + 2 * length [[0, 0::real]]\<rparr>)"
    by blast
  obtain code traj w4 where
    loop: "solve_loop (demo_env_with path_to_1) c3 [0, 0] [0, 0] [] (m_goals ?c @ map state_goal [0]) [] w3
             = (code, traj, w4)"
    by (metis prod_cases3)
  then have res: "code = SUCCESS" "traj = Some [[0, 0], [5, 5]]" "ticks w4 = 11"
    "map (state_ids \<circ> arg_goal \<circ> fst) (engine_log w4) = [[1], [1]]"
    using w1
    by (auto simp: c3 w3 c1 demo_context_def demo_request_def with_goals_def demo_env_with_def
          path_to_1_def state_goal_def Let_def)
  have "solve (Suc (Suc 0)) (demo_env_with path_to_1) ?c w1
          = Inr (\<lparr>val = code, trajectory = traj, planning_time = Some (real (ticks w4) - real (ticks w1))\<rparr>,
                 c3, tick w4)"
    by (rule demo_solve_from_scene[where qs = "[[0, 0]]" and ids = "[0]", OF _ _ _ _ _ _ _ _ _ c3 w3 loop])
       (simp_all add: c1 demo_context_def demo_request_def with_goals_def demo_closest del: One_nat_def)
  with res c3 w1 show ?thesis
    by (simp add: second_call_def fc demo_env_def c1 demo_context_def demo_request_def with_goals_def state_goal_def)
qed

lemma goals_loop_appends:
  assumes "goals_loop fuel e c gcs goals gstates w = Inr (goals', gstates', w')"
  shows "\<exists>new. goals' = goals @ new \<and> length new \<le> length gcs"
  using assms
proof (induction gcs arbitrary: goals gstates w)
  case Nil
  then show ?case by simp
next
  case (Cons gc gcs)
  from Cons.prems obtain ok g gs w1 where
    one: "getRapidPlanGoal fuel e c gc \<lparr>goal_type = RAW_TARGET, state_ids = []\<rparr> w = Inr (ok, g, gs, w1)"
    by (auto split: sum.splits)
  from Cons.prems one consider
    (hit) "goals_loop fuel e c gcs (goals @ [g]) (gstates @ [gs]) w1 = Inr (goals', gstates', w')"
    | (miss) "goals_loop fuel e c gcs goals gstates w1 = Inr (goals', gstates', w')"
    by (auto split: if_splits)
  then show ?case
  proof cases
    case hit
    from Cons.IH[OF hit] obtain new where "goals' = (goals @ [g]) @ new" "length new \<le> length gcs"
      by blast
    then show ?thesis
      by (intro exI[of _ "g # new"]) simp
  next
    case miss
    from Cons.IH[OF miss] show ?thesis
      by auto
  qed
qed

lemma solve_keeps_goals:
  assumes "solve fuel e c w = Inr (r, c', w')" and "m_configured c"
  shows "\<exists>new. m_goals c' = m_goals c @ new \<and> length new \<le> length (goal_constraints (m_request c))"
proof -
  let ?c1 = "c\<lparr>m_terminate_plan_time := now_at e (ticks w) + allowed_planning_time (m_request c)\<rparr>"
  from assms obtain ok goals c1' w2 where
    init: "initRapidPlanGoals fuel e ?c1 (goal_constraints (m_request ?c1)) (m_goals ?c1) (tick w)
             = Inr (ok, goals, c1', w2)"
    by (auto simp: solve_def Let_def split: sum.splits)
  then obtain gs w1 where "goals_loop fuel e ?c1 (goal_constraints (m_request c)) (m_goals c) (m_goal_states ?c1) (tick w)
                       = Inr (goals, gs, w1)"
    by (auto simp: initRapidPlanGoals_def Let_def split: sum.splits if_splits)
  from goals_loop_appends[OF this] obtain new where
    new: "goals = m_goals c @ new" "length new \<le> length (goal_constraints (m_request c))"
    by blast
  have "m_goals c' = goals"
  proof (cases ok)
    case False
    with assms init show ?thesis
      by (auto simp: solve_def Let_def)
  next
    case True
    from assms init True obtain scene where scene: "m_planning_scene (c1'\<lparr>m_goals := goals\<rparr>) = Some scene"
      by (auto simp: solve_def Let_def split: option.splits)
    from assms init True scene obtain started start c3 w3 where
      st: "initStartState e (c1'\<lparr>m_goals := goals\<rparr>) w2 = Inr (started, start, c3, w3)"
      by (auto simp: solve_def Let_def split: sum.splits)
    from initStartState_result[OF st] obtain ss where c3: "c3 = c1'\<lparr>m_goals := goals, m_start_state := ss\<rparr>"
      by auto
    from assms init True scene st have "c' = c3"
      by (auto simp: solve_def Let_def split: if_splits prod.splits)
    with c3 show ?thesis by simp
  qed
  with new show ?thesis by blast
qed

text \<open>
  C5. The candidate list is a member that solve only appends to. In the second call
  the request asks for roadmap state 0; the first candidate passed to the search engine
  is the one left by the first call, for state 1, and the call returns SUCCESS with the
  path to state 1.
\<close>

theorem stale_goal_is_tried:
  "\<not> isl second_call
   \<and> goal_constraints (m_request (fst (snd (projr second_call)))) = [joint_goal [0, 0]]
   \<and> map state_ids (m_goals (fst (snd first_call))) = [[1]]
   \<and> map state_ids (m_goals (fst (snd (projr second_call)))) = [[1], [0]]
   \<and> map (state_ids \<circ> arg_goal \<circ> fst) (engine_log (snd (snd first_call))) = [[1]]
   \<and> map (state_ids \<circ> arg_goal \<circ> fst) (engine_log (snd (snd (projr second_call)))) = [[1], [1]]
   \<and> val (fst (projr second_call)) = SUCCESS
   \<and> trajectory (fst (projr second_call)) = Some [[0, 0], [5, 5]]"
proof -
  from demo_first_call obtain r1 c1 w1 where fc: "first_call = (r1, c1, w1)"
    and "map state_ids (m_goals c1) = [[1]]"
    and "map (state_ids \<circ> arg_goal \<circ> fst) (engine_log w1) = [[1]]"
    by (auto simp: state_goal_def)
  then have first: "map state_ids (m_goals (fst (snd first_call))) = [[1]]"
    "map (state_ids \<circ> arg_goal \<circ> fst) (engine_log (snd (snd first_call))) = [[1]]"
    by (simp_all add: fc)
  from demo_second_call obtain r2 c2 w2 where sc: "second_call = Inr (r2, c2, w2)"
    and "val r2 = SUCCESS" "trajectory r2 = Some [[0, 0], [5, 5]]"
    and "map state_ids (m_goals c2) = [[1], [0]]"
    and "goal_constraints (m_request c2) = [joint_goal [0, 0]]"
    and "map (state_ids \<circ> arg_goal \<circ> fst) (engine_log w2) = [[1], [1]]"
    by auto
  with first show ?thesis
    by (simp add: sc)
qed

section \<open>Goals that do not resolve\<close>

lemma demo_getRapidPlanGoal_unresolved:
  assumes "m_planning_scene c = Some scene" and "m_jmg c = Some g"
    and "m_roadmap_configs c = [[0, 0], [5, 5]]"
    and "real (ticks w) < m_terminate_plan_time c" and "m_terminate_plan_time c \<le> real (ticks w) + 2"
  shows "getRapidPlanGoal (Suc (Suc n)) (demo_env_with f) c (joint_goal [9, 9]) goal w
           = Inr (False, \<lparr>goal_type = STATE_IDS, state_ids = []\<rparr>, None, tick (tick (tick w)))"
proof -
  let ?e = "demo_env_with f"
  have smp: "init_samplers (joint_goal [9, 9]) = [JointConstraintSampler (joint_goal [9, 9])]"
    by (simp add: init_samplers_def joint_goal_def)
  have "sample_loop (Suc (Suc n)) ?e c [JointConstraintSampler (joint_goal [9, 9])] (current_state scene)
          (current_state scene) (goal\<lparr>goal_type := STATE_IDS\<rparr>) w
        = sample_loop (Suc n) ?e c [JointConstraintSampler (joint_goal [9, 9])] (current_state scene)
            [9, 9] (goal\<lparr>goal_type := STATE_IDS, state_ids := []\<rparr>) (tick (tick w))"
    using assms(3,4) demo_closest(4)[of f]
    by (intro sample_loop_miss)
       (simp_all add: demo_env_with_def joint_goal_def max_goal_states_def allowed_joint_distance_def)
  also have "\<dots> = Inr (False, goal\<lparr>goal_type := STATE_IDS, state_ids := []\<rparr>, None, tick (tick (tick w)))"
    using assms(5) by (intro sample_loop_deadline) (simp add: demo_env_with_def)
  finally show ?thesis
    using assms(1,2) smp by (simp add: getRapidPlanGoal_def)
qed

lemma demo_fresh_call_unresolved:
  "\<exists>c' w'. fresh_call_unresolved = Inr (\<lparr>val = FAILURE, trajectory = None, planning_time = None\<rparr>, c', w')
     \<and> engine_log w' = [] \<and> ros_log w' = [''Failed to extract any goals from constraints'']"
proof -
  let ?c = "short_time (with_goals [[9, 9]] demo_context)"
  let ?c1 = "?c\<lparr>m_terminate_plan_time := now_at demo_env (ticks world0) + allowed_planning_time (m_request ?c)\<rparr>"
  have one: "getRapidPlanGoal (Suc (Suc 0)) demo_env ?c1 (joint_goal [9, 9]) \<lparr>goal_type = RAW_TARGET, state_ids = []\<rparr>
               (tick world0)
             = Inr (False, \<lparr>goal_type = STATE_IDS, state_ids = []\<rparr>, None, tick (tick (tick (tick world0))))"
    unfolding demo_env_def
    by (rule demo_getRapidPlanGoal_unresolved)
       (simp_all add: short_time_def with_goals_def demo_context_def demo_request_def demo_env_with_def world0_def)
  have "goals_loop (Suc (Suc 0)) demo_env ?c1 (goal_constraints (m_request ?c)) (m_goals ?c) (m_goal_states ?c1) (tick world0)
          = Inr ([], [], tick (tick (tick (tick world0))))"
    using one by (simp add: short_time_def with_goals_def demo_context_def)
  from initRapidPlanGoals_run[OF this]
  have init: "initRapidPlanGoals (Suc (Suc 0)) demo_env ?c1 (goal_constraints (m_request ?c)) (m_goals ?c) (tick world0)
                = Inr (False, [], ?c1\<lparr>m_goal_states := []\<rparr>,
                       ros_msg ''Failed to extract any goals from constraints'' (tick (tick (tick (tick world0)))))"
    by (simp add: short_time_def with_goals_def demo_context_def)
  have "m_configured ?c"
    by (simp add: short_time_def with_goals_def demo_context_def)
  from solve_no_goals[OF this init] show ?thesis
    by (simp add: fresh_call_unresolved_def world0_def)
qed

lemma demo_second_call_unresolved:
  "\<exists>c' w'. second_call_unresolved = Inr (\<lparr>val = TIMED_OUT, trajectory = None, planning_time = Some 5\<rparr>, c', w')
     \<and> map state_ids (m_goals c') = [[1]]
     \<and> engine_log w' = engine_log (snd (snd first_call))
     \<and> ''Failed to extract any goals from constraints'' \<notin> set (ros_log w')"
proof -
  from demo_first_call obtain r1 c1 w1 where fc: "first_call = (r1, c1, w1)"
    and c1: "c1 = (with_goals [[5, 4]] demo_context)\<lparr>m_terminate_plan_time := 20, m_goal_states := [Some [5, 4]],
                          m_goals := [state_goal 1], m_start_state := Some [0, 0]\<rparr>"
    and w1: "ticks w1 = 6"
      "ros_log w1 = [''Start state in MotionPlanRquest is not populated - using current state from planning scene.'']"
    by auto
  let ?e = "demo_env_with path_to_1"
  let ?c = "short_time (with_goals [[9, 9]] c1)"
  let ?c1 = "?c\<lparr>m_terminate_plan_time := now_at ?e (ticks w1) + allowed_planning_time (m_request ?c)\<rparr>"
  let ?w2 = "tick (tick (tick (tick w1)))"
  have cf: "m_configured ?c" "m_planning_scene ?c1 = Some demo_scene" "m_goals ?c = [state_goal 1]"
    "goal_constraints (m_request ?c) = [joint_goal [9, 9]]" "m_terminate_plan_time ?c1 = 8"
    "m_goal_states ?c1 = [Some [5, 4]]"
    using w1 by (simp_all add: c1 short_time_def with_goals_def demo_context_def demo_env_with_def)
  have one: "getRapidPlanGoal (Suc (Suc 0)) ?e ?c1 (joint_goal [9, 9]) \<lparr>goal_type = RAW_TARGET, state_ids = []\<rparr> (tick w1)
             = Inr (False, \<lparr>goal_type = STATE_IDS, state_ids = []\<rparr>, None, ?w2)"
    using w1
    by (intro demo_getRapidPlanGoal_unresolved)
       (simp_all add: c1 short_time_def with_goals_def demo_context_def demo_request_def demo_env_with_def)
  have "goals_loop (Suc (Suc 0)) ?e ?c1 (goal_constraints (m_request ?c)) (m_goals ?c) (m_goal_states ?c1) (tick w1)
          = Inr ([state_goal 1], [Some [5, 4]], ?w2)"
    using one by (simp add: cf)
  from initRapidPlanGoals_run[OF this]
  have init: "initRapidPlanGoals (Suc (Suc 0)) ?e ?c1 (goal_constraints (m_request ?c)) (m_goals ?c) (tick w1)
                = Inr (True, [state_goal 1], ?c1\<lparr>m_goal_states := [Some [5, 4]]\<rparr>, ?w2)"
    by (simp add: cf)
  have scene: "m_planning_scene (?c1\<lparr>m_goal_states := [Some [5, 4]]\<rparr>) = Some demo_scene"
    using cf by simp
  let ?c3 = "?c1\<lparr>m_goal_states := [Some [5, 4]], m_goals := [state_goal 1], m_start_state := Some [0, 0]\<rparr>"
  let ?w3 = "ros_msg ''Start state in MotionPlanRquest is not populated - using current state from planning scene.'' ?w2"
  have start: "initStartState ?e (?c1\<lparr>m_goal_states := [Some [5, 4]], m_goals := [state_goal 1]\<rparr>) ?w2
                 = Inr (True, [0, 0], ?c3, ?w3)"
    by (simp add: initStartState_def Let_def c1 short_time_def with_goals_def demo_context_def demo_request_def
          demo_env_with_def demo_scene_def)
  have loop: "solve_loop ?e ?c3 (current_state demo_scene) [0, 0]
                (planningSceneToRtrCollisionVoxels ?e demo_scene (volume (m_roadmap (?c1\<lparr>m_goal_states := [Some [5, 4]]\<rparr>))))
                (m_goals ?c3) [] ?w3 = (TIMED_OUT, None, tick ?w3)"
    using w1 by (simp add: Let_def demo_env_with_def c1 short_time_def with_goals_def demo_context_def demo_request_def)
  from solve_run[OF cf(1) init scene start loop] w1 show ?thesis
    by (simp add: second_call_unresolved_def fc demo_env_def demo_env_with_def state_goal_def)
qed

text \<open>
  C9. With the candidate of the first call still in the list, a call whose only goal
  constraint resolves to nothing is not reported as FAILURE: goal resolution counts
  the old candidate, writes no diagnostic, and the attempt loop ends with TIMED_OUT.
  The same request on a context without candidates returns FAILURE with the
  diagnostic.
\<close>

theorem unresolved_goal_after_earlier_call:
  "\<not> isl fresh_call_unresolved
   \<and> val (fst (projr fresh_call_unresolved)) = FAILURE
   \<and> ros_log (snd (snd (projr fresh_call_unresolved))) = [''Failed to extract any goals from constraints'']
   \<and> \<not> isl second_call_unresolved
   \<and> val (fst (projr second_call_unresolved)) = TIMED_OUT
   \<and> map state_ids (m_goals (fst (snd (projr second_call_unresolved)))) = [[1]]
   \<and> ''Failed to extract any goals from constraints'' \<notin> set (ros_log (snd (snd (projr second_call_unresolved))))"
proof -
  from demo_fresh_call_unresolved obtain r1 c1 w1 where f: "fresh_call_unresolved = Inr (r1, c1, w1)"
    and "val r1 = FAILURE" "ros_log w1 = [''Failed to extract any goals from constraints'']"
    by auto
  moreover
  from demo_second_call_unresolved obtain r2 c2 w2 where s: "second_call_unresolved = Inr (r2, c2, w2)"
    and "val r2 = TIMED_OUT" "map state_ids (m_goals c2) = [[1]]"
    and "''Failed to extract any goals from constraints'' \<notin> set (ros_log w2)"
    by auto
  ultimately show ?thesis
    by (simp add: f s)
qed

lemma solve_without_goals:
  assumes "solve fuel e c w = Inr (r, c', w')" and "m_configured c"
  shows "(goal_constraints (m_request c) = [] \<longrightarrow>
            val r = FAILURE \<and> engine_log w' = engine_log w
            \<and> ros_log w' = ros_log w @ [''Goal constraints are empty''])
       \<and> (goal_constraints (m_request c) \<noteq> [] \<and> m_goals c' = [] \<longrightarrow>
            val r = FAILURE \<and> engine_log w' = engine_log w
            \<and> ros_log w' = ros_log w @ [''Failed to extract any goals from constraints''])"
proof -
  let ?c1 = "c\<lparr>m_terminate_plan_time := now_at e (ticks w) + allowed_planning_time (m_request c)\<rparr>"
  from assms obtain ok goals c1' w2 where
    init: "initRapidPlanGoals fuel e ?c1 (goal_constraints (m_request c)) (m_goals c) (tick w)
             = Inr (ok, goals, c1', w2)"
    by (auto simp: solve_def Let_def split: sum.splits)
  then obtain gs w1 where loop: "goals_loop fuel e ?c1 (goal_constraints (m_request c)) (m_goals c) (m_goal_states ?c1) (tick w)
                       = Inr (goals, gs, w1)"
    by (auto simp: initRapidPlanGoals_def Let_def split: sum.splits if_splits)
  from goals_loop_world[OF loop] have w1: "engine_log w1 = engine_log w" "ros_log w1 = ros_log w"
    by simp_all
  from solve_keeps_goals[OF assms] obtain new where "m_goals c' = m_goals c @ new"
    by blast
  moreover from solve_keeps_goals[OF assms] init loop assms have "m_goals c' = goals"
    by (auto simp: solve_def Let_def initRapidPlanGoals_def initStartState_def
             split: sum.splits if_splits option.splits prod.splits)
  ultimately have goals: "m_goals c' = goals" by simp
  have "val r = FAILURE \<and> engine_log w' = engine_log w \<and> ros_log w' = ros_log w @ [''Goal constraints are empty'']"
    if "goal_constraints (m_request c) = []"
  proof -
    from initRapidPlanGoals_run[OF loop] that init
    have "ok = False" "w2 = ros_msg ''Goal constraints are empty'' w1"
      by simp_all
    with assms init w1 show ?thesis
      by (auto simp: solve_def Let_def)
  qed
  moreover
  have "val r = FAILURE \<and> engine_log w' = engine_log w
          \<and> ros_log w' = ros_log w @ [''Failed to extract any goals from constraints'']"
    if "goal_constraints (m_request c) \<noteq> []" and "m_goals c' = []"
  proof -
    from that goals have "goals = []" by simp
    with initRapidPlanGoals_run[OF loop] that init
    have "ok = False" "w2 = ros_msg ''Failed to extract any goals from constraints'' w1"
      by simp_all
    with assms init w1 show ?thesis
      by (auto simp: solve_def Let_def)
  qed
  ultimately show ?thesis by blast
qed

section \<open>The start configuration\<close>

lemma match_joint_indices:
  assumes "\<forall>i \<in> set is. i < length (name js)"
  shows "match_joint fl jn js is acc
           = Inr (acc @ map (\<lambda>i. fl (position js ! i)) (filter (\<lambda>i. name js ! i = jn) is))"
  using assms by (induction "is" arbitrary: acc) auto

lemma zip_as_indices:
  assumes "length ys \<le> length xs"
  shows "zip xs ys = map (\<lambda>i. (xs ! i, ys ! i)) [0..<length ys]"
  using assms by (intro nth_equalityI) simp_all

lemma match_joint_entries:
  assumes "length (position js) \<le> length (name js)"
  shows "match_joint fl jn js [0..<length (position js)] acc
           = Inr (acc @ map (fl \<circ> snd) (filter (\<lambda>p. fst p = jn) (zip (name js) (position js))))"
proof -
  from assms have "\<forall>i \<in> set [0..<length (position js)]. i < length (name js)"
    by simp
  from match_joint_indices[OF this]
  have "match_joint fl jn js [0..<length (position js)] acc
          = Inr (acc @ map (\<lambda>i. fl (position js ! i))
                         (filter (\<lambda>i. name js ! i = jn) [0..<length (position js)]))" .
  also have "map (\<lambda>i. fl (position js ! i)) (filter (\<lambda>i. name js ! i = jn) [0..<length (position js)])
               = map (fl \<circ> snd) (filter (\<lambda>p. fst p = jn) (zip (name js) (position js)))"
    unfolding zip_as_indices[OF assms] by (simp add: filter_map comp_def)
  finally show ?thesis .
qed

text \<open>
  The start configuration is assembled joint by joint in the order of the group: for
  each joint of the group, the positions of the request entries that carry its name,
  in the order of the request.
\<close>

lemma match_joints_entries:
  assumes "length (position js) \<le> length (name js)"
  shows "match_joints fl jns js acc
           = Inr (acc @ concat (map (\<lambda>jn. map (fl \<circ> snd) (filter (\<lambda>p. fst p = jn) (zip (name js) (position js)))) jns))"
  by (induction jns arbitrary: acc) (simp_all add: match_joint_entries[OF assms])

lemma filter_key_distinct:
  assumes "distinct (map fst xs)"
  shows "length (filter (\<lambda>p. fst p = k) xs) \<le> 1"
  using assms
proof (induction xs)
  case Nil
  then show ?case by simp
next
  case (Cons x xs)
  show ?case
  proof (cases "fst x = k")
    case True
    with Cons.prems have "\<forall>p \<in> set xs. fst p \<noteq> k"
      by (force simp: image_iff)
    then have "filter (\<lambda>p. fst p = k) xs = []"
      by (simp add: filter_empty_conv)
    with True show ?thesis by simp
  next
    case False
    with Cons show ?thesis by simp
  qed
qed

lemma short_lists_of_one_mset:
  assumes "mset xs = mset ys" and "length xs \<le> 1"
  shows "xs = ys"
proof -
  from assms(1) have "length xs = length ys"
    by (rule mset_eq_length)
  with assms show ?thesis
    by (cases xs; cases ys) auto
qed

lemma match_joints_permuted:
  assumes len1: "length (position js1) \<le> length (name js1)"
    and len2: "length (position js2) \<le> length (name js2)"
    and perm: "mset (zip (name js1) (position js1)) = mset (zip (name js2) (position js2))"
    and dist: "distinct (map fst (zip (name js1) (position js1)))"
  shows "match_joints fl jns js1 [] = match_joints fl jns js2 []"
proof -
  have "filter (\<lambda>p. fst p = jn) (zip (name js1) (position js1))
          = filter (\<lambda>p. fst p = jn) (zip (name js2) (position js2))" for jn
  proof (rule short_lists_of_one_mset)
    show "mset (filter (\<lambda>p. fst p = jn) (zip (name js1) (position js1)))
            = mset (filter (\<lambda>p. fst p = jn) (zip (name js2) (position js2)))"
      by (simp add: perm)
    show "length (filter (\<lambda>p. fst p = jn) (zip (name js1) (position js1))) \<le> 1"
      by (rule filter_key_distinct[OF dist])
  qed
  then show ?thesis
    by (simp add: match_joints_entries[OF len1] match_joints_entries[OF len2])
qed

lemma sum_list_below_length:
  assumes "\<forall>x \<in> set xs. f x \<le> (1::nat)" and "\<exists>x \<in> set xs. f x = 0"
  shows "sum_list (map f xs) < length xs"
  using assms
proof (induction xs)
  case Nil
  then show ?case by simp
next
  case (Cons x xs)
  have le: "sum_list (map f xs) \<le> length xs"
    using Cons.prems(1) by (induction xs) (auto simp: le_Suc_eq add_le_mono)
  show ?case
  proof (cases "f x = 0")
    case True
    with le show ?thesis by simp
  next
    case False
    with Cons.prems have "\<exists>x \<in> set xs. f x = 0" "f x \<le> 1"
      by auto
    with Cons.IH Cons.prems(1) show ?thesis
      by simp
  qed
qed

lemma match_joints_absent:
  assumes len: "length (position js) \<le> length (name js)"
    and dist: "distinct (map fst (zip (name js) (position js)))"
    and jn: "jn \<in> set jns" and absent: "jn \<notin> fst ` set (zip (name js) (position js))"
  shows "\<exists>start. match_joints fl jns js [] = Inr start \<and> length start < length jns"
proof -
  let ?block = "\<lambda>jn. map (fl \<circ> snd) (filter (\<lambda>p. fst p = jn) (zip (name js) (position js)))"
  have "\<forall>x \<in> set jns. length (?block x) \<le> 1"
    using filter_key_distinct[OF dist] by simp
  moreover from absent have "length (?block jn) = 0"
    by (auto simp: filter_empty_conv)
  with jn have "\<exists>x \<in> set jns. length (?block x) = 0"
    by blast
  ultimately have "sum_list (map (\<lambda>x. length (?block x)) jns) < length jns"
    by (rule sum_list_below_length)
  then have "length (concat (map ?block jns)) < length jns"
    by (simp add: length_concat comp_def)
  then show ?thesis
    by (simp add: match_joints_entries[OF len])
qed

lemma initStartState_absent_joint:
  assumes "m_planning_scene c \<noteq> None"
    and "position (start_state_joint_state (m_request c)) \<noteq> []"
    and "length (position (start_state_joint_state (m_request c)))
           \<le> length (name (start_state_joint_state (m_request c)))"
    and "distinct (map fst (zip (name (start_state_joint_state (m_request c)))
                                (position (start_state_joint_state (m_request c)))))"
    and "jn \<in> set (m_joint_model_names c)"
    and "jn \<notin> fst ` set (zip (name (start_state_joint_state (m_request c)))
                             (position (start_state_joint_state (m_request c))))"
  shows "\<exists>start c' w'. initStartState e c w = Inr (False, start, c', w')
           \<and> engine_log w' = engine_log w
           \<and> ros_log w' = ros_log w @
                [''Invalid start state in planning request - joint message does not match to joint group'']"
proof -
  from match_joints_absent[OF assms(3,4,5,6)] obtain start where
    "match_joints (to_float e) (m_joint_model_names c) (start_state_joint_state (m_request c)) [] = Inr start"
    "length start < length (m_joint_model_names c)"
    by blast
  with assms(1,2) show ?thesis
    by (auto simp: initStartState_def Let_def)
qed

lemma solve_absent_joint:
  assumes run: "solve fuel e c w = Inr (r, c', w')"
    and "position (start_state_joint_state (m_request c)) \<noteq> []"
    and "length (position (start_state_joint_state (m_request c)))
           \<le> length (name (start_state_joint_state (m_request c)))"
    and "distinct (map fst (zip (name (start_state_joint_state (m_request c)))
                                (position (start_state_joint_state (m_request c)))))"
    and "jn \<in> set (m_joint_model_names c)"
    and "jn \<notin> fst ` set (zip (name (start_state_joint_state (m_request c)))
                             (position (start_state_joint_state (m_request c))))"
  shows "val r = FAILURE \<and> engine_log w' = engine_log w"
proof (cases "m_configured c")
  case False
  with run show ?thesis
    by (auto simp: solve_def Let_def)
next
  case True
  let ?c1 = "c\<lparr>m_terminate_plan_time := now_at e (ticks w) + allowed_planning_time (m_request c)\<rparr>"
  from run True obtain ok goals c1' w2 where
    init: "initRapidPlanGoals fuel e ?c1 (goal_constraints (m_request ?c1)) (m_goals ?c1) (tick w)
             = Inr (ok, goals, c1', w2)"
    by (auto simp: solve_def Let_def split: sum.splits)
  note i = initRapidPlanGoals_result[OF init]
  then obtain gs where c1': "c1' = ?c1\<lparr>m_goal_states := gs\<rparr>"
    by blast
  show ?thesis
  proof (cases ok)
    case False
    with run True init i show ?thesis
      by (auto simp: solve_def Let_def)
  next
    case ok: True
    let ?c2 = "c1'\<lparr>m_goals := goals\<rparr>"
    from run True init ok obtain scene where scene: "m_planning_scene ?c2 = Some scene"
      by (auto simp: solve_def Let_def split: option.splits)
    then have "m_planning_scene ?c2 \<noteq> None" by simp
    from initStartState_absent_joint[OF this, of jn e w2] assms(2-6) c1'
    obtain start c3 w3 where st: "initStartState e ?c2 w2 = Inr (False, start, c3, w3)"
      and "engine_log w3 = engine_log w2"
      by auto
    with run True init ok scene i show ?thesis
      by (auto simp: solve_def Let_def)
  qed
qed

lemma initStartState_permuted:
  assumes "m_planning_scene c \<noteq> None"
    and "length ps1 \<le> length ns1" and "length ps2 \<le> length ns2"
    and "mset (zip ns1 ps1) = mset (zip ns2 ps2)"
    and "distinct (map fst (zip ns1 ps1))" and "ps1 \<noteq> []"
  shows "map_sum id (\<lambda>r. (fst r, fst (snd r))) (initStartState e (with_start ns1 ps1 c) w)
           = map_sum id (\<lambda>r. (fst r, fst (snd r))) (initStartState e (with_start ns2 ps2 c) w)"
proof -
  from assms(2,6) have "zip ns1 ps1 \<noteq> []"
    by (cases ns1; cases ps1) auto
  with assms(4) have "zip ns2 ps2 \<noteq> []"
    by (metis mset_zero_iff)
  then have ps2: "ps2 \<noteq> []"
    by auto
  have "match_joints (to_float e) (m_joint_model_names c) \<lparr>name = ns1, position = ps1\<rparr> []
          = match_joints (to_float e) (m_joint_model_names c) \<lparr>name = ns2, position = ps2\<rparr> []"
    using assms(2-5) by (intro match_joints_permuted) simp_all
  with assms(1,6) ps2 show ?thesis
    by (auto simp: initStartState_def with_start_def Let_def split: sum.splits)
qed

lemma demo_duplicate_call:
  "\<exists>c' w'. duplicate_call = Inr (\<lparr>val = SUCCESS, trajectory = Some [[0, 0], [5, 5]], planning_time = Some 5\<rparr>, c', w')
     \<and> map (arg_start_config \<circ> fst) (engine_log w') = [[1, 2]]
     \<and> m_joint_model_names c' = [''a'', ''b'']
     \<and> name (start_state_joint_state (m_request c')) = [''a'', ''a'']"
proof -
  let ?e = "demo_env_with path_to_1"
  let ?c = "with_start [''a'', ''a''] [1, 2] (with_goals [[5, 4]] demo_context)"
  let ?c1 = "?c\<lparr>m_terminate_plan_time := now_at ?e (ticks world0) + allowed_planning_time (m_request ?c)\<rparr>"
  let ?w2 = "(tick world0)\<lparr>ticks := ticks (tick world0) + 2 * length [[5, 4::real]]\<rparr>"
  let ?c1' = "?c1\<lparr>m_goal_states := m_goal_states ?c1 @ map Some [[5, 4]]\<rparr>"
  have cf: "m_configured ?c" "goal_constraints (m_request ?c) = map joint_goal [[5, 4]]" "m_goals ?c = []"
    by (simp_all add: with_start_def with_goals_def demo_context_def)
  have now: "now_at ?e k = real k" for k
    by (simp add: demo_env_with_def)
  have "initRapidPlanGoals (Suc (Suc 0)) ?e ?c1 (map joint_goal [[5, 4]]) [] (tick world0)
          = Inr (True, [] @ map state_goal [1], ?c1', ?w2)"
    by (rule demo_initRapidPlanGoals)
       (simp_all add: with_start_def with_goals_def demo_context_def demo_request_def now world0_def
          demo_closest del: One_nat_def)
  then have init: "initRapidPlanGoals (Suc (Suc 0)) ?e ?c1 (goal_constraints (m_request ?c)) (m_goals ?c) (tick world0)
          = Inr (True, [state_goal 1], ?c1', ?w2)"
    by (simp add: cf)
  have scene: "m_planning_scene ?c1' = Some demo_scene"
    by (simp add: with_start_def with_goals_def demo_context_def)
  let ?c3 = "?c1'\<lparr>m_goals := [state_goal 1], m_start_state := Some [1, 2]\<rparr>"
  have start: "initStartState ?e (?c1'\<lparr>m_goals := [state_goal 1]\<rparr>) ?w2 = Inr (True, [1, 2], ?c3, ?w2)"
    by (simp add: initStartState_def Let_def with_start_def with_goals_def demo_context_def demo_request_def
          demo_env_with_def demo_scene_def)
  obtain code traj w4 where
    loop: "solve_loop ?e ?c3 (current_state demo_scene) [1, 2]
                (planningSceneToRtrCollisionVoxels ?e demo_scene (volume (m_roadmap ?c1')))
                (m_goals ?c3) [] ?w2 = (code, traj, w4)"
    by (metis prod_cases3)
  then have res: "code = SUCCESS" "traj = Some [[0, 0], [5, 5]]" "ticks w4 = 5"
    "map (arg_start_config \<circ> fst) (engine_log w4) = [[1, 2]]"
    by (auto simp: with_start_def with_goals_def demo_context_def demo_request_def world0_def demo_env_with_def
          path_to_1_def state_goal_def Let_def)
  from solve_run[OF cf(1) init scene start loop] res show ?thesis
    by (simp add: duplicate_call_def demo_env_def demo_env_with_def world0_def with_start_def with_goals_def
          demo_context_def)
qed

text \<open>
  C8. The request names joint a twice and joint b, an active joint of the group, not
  at all. The start configuration takes both values of a, has as many entries as the
  group has joints, and passes the check; the search engine is called with it and the
  solve call returns SUCCESS.
\<close>

theorem start_state_duplicate_names:
  "\<not> isl duplicate_call
   \<and> val (fst (projr duplicate_call)) = SUCCESS
   \<and> map (arg_start_config \<circ> fst) (engine_log (snd (snd (projr duplicate_call)))) = [[1, 2]]
   \<and> m_joint_model_names (fst (snd (projr duplicate_call))) = [''a'', ''b'']
   \<and> name (start_state_joint_state (m_request (fst (snd (projr duplicate_call))))) = [''a'', ''a'']"
proof -
  from demo_duplicate_call obtain r c' w' where d: "duplicate_call = Inr (r, c', w')"
    and "val r = SUCCESS" "map (arg_start_config \<circ> fst) (engine_log w') = [[1, 2]]"
    and "m_joint_model_names c' = [''a'', ''b'']"
    and "name (start_state_joint_state (m_request c')) = [''a'', ''a'']"
    by auto
  then show ?thesis
    by (simp add: d)
qed

text \<open>
  For a request that names no joint twice, every reordering of its entries gives the
  same outcome of the start resolver and the same start configuration.
\<close>

lemma initStartState_group_order:
  assumes "m_planning_scene c \<noteq> None"
    and "length ps1 \<le> length ns1" and "length ps2 \<le> length ns2"
    and "mset (zip ns1 ps1) = mset (zip ns2 ps2)"
    and "distinct (map fst (zip ns1 ps1))" and "ps1 \<noteq> []"
  shows "match_joints (to_float e) (m_joint_model_names c) \<lparr>name = ns1, position = ps1\<rparr> []
           = Inr (concat (map (\<lambda>jn. map (to_float e \<circ> snd) (filter (\<lambda>p. fst p = jn) (zip ns1 ps1)))
                           (m_joint_model_names c)))
       \<and> map_sum id (\<lambda>r. (fst r, fst (snd r))) (initStartState e (with_start ns1 ps1 c) w)
           = map_sum id (\<lambda>r. (fst r, fst (snd r))) (initStartState e (with_start ns2 ps2 c) w)"
proof
  show "match_joints (to_float e) (m_joint_model_names c) \<lparr>name = ns1, position = ps1\<rparr> []
           = Inr (concat (map (\<lambda>jn. map (to_float e \<circ> snd) (filter (\<lambda>p. fst p = jn) (zip ns1 ps1)))
                           (m_joint_model_names c)))"
    using assms(2) match_joints_entries[of "\<lparr>name = ns1, position = ps1\<rparr>" "to_float e" "m_joint_model_names c" "[]"]
    by simp
  show "map_sum id (\<lambda>r. (fst r, fst (snd r))) (initStartState e (with_start ns1 ps1 c) w)
           = map_sum id (\<lambda>r. (fst r, fst (snd r))) (initStartState e (with_start ns2 ps2 c) w)"
    by (rule initStartState_permuted[OF assms])
qed

lemma demo_reordered_start:
  "mset (zip [''b'', ''a''] [7, 3::real]) = mset (zip [''a'', ''b''] [3, 7])
   \<and> map_sum id (\<lambda>r. (fst r, fst (snd r))) (initStartState demo_env (with_start [''b'', ''a''] [7, 3] demo_context) world0)
       = Inr (True, [3, 7])
   \<and> map_sum id (\<lambda>r. (fst r, fst (snd r))) (initStartState demo_env (with_start [''a'', ''b''] [3, 7] demo_context) world0)
       = Inr (True, [3, 7])"
proof -
  have perm: "mset (zip [''b'', ''a''] [7, 3::real]) = mset (zip [''a'', ''b''] [3, 7])"
    by simp
  have "m_planning_scene demo_context \<noteq> None"
    by (simp add: demo_context_def)
  from initStartState_group_order[OF this _ _ perm, of demo_env world0]
  have same: "map_sum id (\<lambda>r. (fst r, fst (snd r))) (initStartState demo_env (with_start [''b'', ''a''] [7, 3] demo_context) world0)
       = map_sum id (\<lambda>r. (fst r, fst (snd r))) (initStartState demo_env (with_start [''a'', ''b''] [3, 7] demo_context) world0)"
    by simp
  have "map_sum id (\<lambda>r. (fst r, fst (snd r))) (initStartState demo_env (with_start [''a'', ''b''] [3, 7] demo_context) world0)
       = Inr (True, [3, 7])"
    by (simp add: initStartState_def Let_def with_start_def demo_context_def demo_request_def
        demo_env_def demo_env_with_def demo_scene_def)
  with same perm show ?thesis
    by simp
qed

text \<open>
  C10. Two requests for a group of three joints a, b, c carry the same entries in a
  different order; they name joint a twice and joint c not at all. The start resolver
  accepts both, as for C8, because it only counts the values it has taken; the two
  start configurations differ, each keeping the two values of a in the order of its
  message.
\<close>

theorem start_state_order_with_duplicates:
  "mset (zip [''a'', ''b'', ''a''] [1, 5, 2::real]) = mset (zip [''b'', ''a'', ''a''] [5, 2, 1])
   \<and> fst (projr (initStartState demo_env
        (with_start [''a'', ''b'', ''a''] [1, 5, 2] (three_joints demo_context)) world0)) = True
   \<and> fst (snd (projr (initStartState demo_env
        (with_start [''a'', ''b'', ''a''] [1, 5, 2] (three_joints demo_context)) world0))) = [1, 2, 5]
   \<and> fst (projr (initStartState demo_env
        (with_start [''b'', ''a'', ''a''] [5, 2, 1] (three_joints demo_context)) world0)) = True
   \<and> fst (snd (projr (initStartState demo_env
        (with_start [''b'', ''a'', ''a''] [5, 2, 1] (three_joints demo_context)) world0))) = [2, 1, 5]"
  by (simp add: initStartState_def Let_def with_start_def three_joints_def demo_context_def demo_request_def
        demo_env_def demo_env_with_def demo_scene_def)

end
